theory Spec2Isabelle
  imports Main "HOL-Library.Word" "HOL-Library.Multiset"
begin

section \<open>Buffers, keys and the ledger client\<close>

text \<open>
  A Node \<^verbatim>\<open>Buffer\<close> is a list of bytes. \<^verbatim>\<open>buf.slice(s, e)\<close> (and \<^verbatim>\<open>subarray\<close>) with
  non-negative bounds clamps both bounds to the length and never fails;
  \<^verbatim>\<open>buf.readUInt32LE(off)\<close> raises a RangeError unless the four bytes
  \<open>off .. off + 3\<close> are all inside the buffer, and otherwise returns
  \<open>b0 + b1 * 2^8 + b2 * 2^16 + b3 * 2^24\<close>.
\<close>

type_synonym byte = "8 word"
type_synonym Buffer = "byte list"

datatype error =
    AccountNotFound      \<comment> \<open>\<^verbatim>\<open>throw new Error("... not found ...")\<close> in \<^verbatim>\<open>_fetchAccountData\<close>\<close>
  | RangeError           \<comment> \<open>an out-of-bounds \<^verbatim>\<open>readUInt32LE\<close>\<close>
  | RpcError             \<comment> \<open>a rejected call of the ledger client\<close>
  | InvalidPublicKey     \<comment> \<open>\<^verbatim>\<open>throw new Error("Invalid public key input")\<close> in \<^verbatim>\<open>new PublicKey\<close>\<close>
  | TypeError            \<comment> \<open>an operation on \<^verbatim>\<open>undefined\<close>\<close>
  | NonBase58Character   \<comment> \<open>\<^verbatim>\<open>throw new Error("Non-base58 character")\<close> in \<^verbatim>\<open>bs58.decode\<close>\<close>
  | MissingAddress       \<comment> \<open>"Must provide a --thread or --channel address", \<^verbatim>\<open>process.exit(1)\<close>\<close>

definition slice :: "Buffer \<Rightarrow> nat \<Rightarrow> nat \<Rightarrow> Buffer" where
  "slice buf s e = take (e - s) (drop s buf)"

definition readUInt32LE :: "Buffer \<Rightarrow> nat \<Rightarrow> error + nat" where
  "readUInt32LE buf off =
     (if off + 4 \<le> length buf
      then Inr (unat (buf ! off) + unat (buf ! (off + 1)) * 2 ^ 8
                + unat (buf ! (off + 2)) * 2 ^ 16 + unat (buf ! (off + 3)) * 2 ^ 24)
      else Inl RangeError)"

text \<open>
  \<^verbatim>\<open>Buffer.from(new Uint32Array([n]).buffer)\<close>, the four little-endian bytes of
  \<open>n mod 2^32\<close>, as the send commands write the index and the content length.
\<close>

definition u32le :: "nat \<Rightarrow> Buffer" where
  "u32le n = [of_nat n, of_nat (n div 2 ^ 8), of_nat (n div 2 ^ 16), of_nat (n div 2 ^ 24)]"

text \<open>
  A \<^verbatim>\<open>PublicKey\<close> is represented by its 32 bytes (\<^verbatim>\<open>toBytes()\<close>). The constructor
  reads a byte array as a big-endian number and rejects more than 32 bytes; fewer bytes
  give the same number, so the key's bytes are the input padded with zeros on the left.
  \<^verbatim>\<open>equals\<close> is equality of that number and \<^verbatim>\<open>toBase58()\<close> is an injective rendering of
  the 32 bytes, so both are modelled by the bytes themselves.
\<close>

type_synonym PublicKey = "byte list"

definition newPublicKey :: "Buffer \<Rightarrow> PublicKey option" where
  "newPublicKey bs =
     (if length bs \<le> 32 then Some (replicate (32 - length bs) 0 @ bs) else None)"

text \<open>\<^verbatim>\<open>9tN5NBvynubfJwQWDqrSoHEE3Xy2MVj3BmHdLu13wCcS\<close>, Base58-decoded.\<close>

definition PROGRAM_ID :: PublicKey where
  "PROGRAM_ID =
     [132, 5, 242, 81, 38, 73, 242, 33, 209, 5, 219, 165, 22, 71, 19, 76,
      142, 13, 141, 225, 173, 113, 36, 228, 141, 54, 25, 33, 78, 237, 135, 163]"

text \<open>The two entries of \<^verbatim>\<open>DISCRIMINATORS\<close> that the readers use, hex-decoded.\<close>

definition DISCRIMINATORS_sendMessage :: Buffer where
  "DISCRIMINATORS_sendMessage = [57, 40, 34, 178, 189, 10, 65, 26]"

definition DISCRIMINATORS_sendBroadcast :: Buffer where
  "DISCRIMINATORS_sendBroadcast = [233, 241, 72, 77, 151, 147, 32, 89]"

text \<open>
  \<^verbatim>\<open>buf.toString("utf8")\<close>: a JavaScript string is represented by its UTF-8 bytes, one
  \<open>char\<close> per byte (for well-formed UTF-8, which is all the claims below use).
\<close>

definition toString_utf8 :: "Buffer \<Rightarrow> string" where
  "toString_utf8 bs = map (\<lambda>b. char_of (unat b)) bs"

text \<open>
  What the ledger client returns. An array read out of range gives \<^verbatim>\<open>undefined\<close> in
  JavaScript; \<open>lookup\<close> makes that \<open>None\<close>.
\<close>

definition lookup :: "'a list \<Rightarrow> nat \<Rightarrow> 'a option" where
  "lookup xs i = (if i < length xs then Some (xs ! i) else None)"

record CompiledInstruction =
  programIdIndex :: nat
  accountKeyIndexes :: "nat list"
  data :: Buffer

record VersionedMessage =
  staticAccountKeys :: "PublicKey list"
  compiledInstructions :: "CompiledInstruction list option"
    \<comment> \<open>\<open>None\<close>: the property is not \<^verbatim>\<open>in\<close> the message\<close>

record TransactionResponse =
  transaction :: "VersionedMessage option"   \<comment> \<open>\<^verbatim>\<open>tx.transaction.message\<close>; \<open>None\<close>: \<^verbatim>\<open>!tx.transaction\<close>\<close>
  blockTime :: "nat option"

type_synonym TransactionSignature = string

record Connection =
  getAccountInfo :: "PublicKey \<Rightarrow> error + Buffer option"
  signaturesOf :: "PublicKey \<Rightarrow> error + TransactionSignature list"
    \<comment> \<open>every reference that touched the address, newest first\<close>
  getTransaction :: "TransactionSignature \<Rightarrow> error + TransactionResponse option"

text \<open>\<^verbatim>\<open>connection.getSignaturesForAddress(pda, {limit})\<close>: at most \<open>limit\<close> references.\<close>

definition getSignaturesForAddress ::
  "Connection \<Rightarrow> PublicKey \<Rightarrow> nat \<Rightarrow> error + TransactionSignature list" where
  "getSignaturesForAddress connection pda limit =
     (case signaturesOf connection pda of
        Inl e \<Rightarrow> Inl e
      | Inr sigs \<Rightarrow> Inr (take limit sigs))"

section \<open>Account metadata: \<^verbatim>\<open>_fetchAccountData\<close>\<close>

datatype AccountType = thread | channel

record AccountMetadata =
  type :: AccountType
  pda :: PublicKey
  messageCountOffset :: nat
  discriminator :: Buffer
  owner :: "PublicKey option"
  participantA :: "PublicKey option"
  participantB :: "PublicKey option"
  channelName :: "string option"

definition fetchAccountData ::
  "Connection \<Rightarrow> PublicKey \<Rightarrow> AccountType \<Rightarrow> error + (AccountMetadata \<times> Buffer)" where
  "fetchAccountData connection pda' type' =
     (case getAccountInfo connection pda' of
        Inl e \<Rightarrow> Inl e
      | Inr None \<Rightarrow> Inl AccountNotFound
      | Inr (Some data') \<Rightarrow>
          (case type' of
             thread \<Rightarrow>
               (case newPublicKey (slice data' 8 40) of
                  None \<Rightarrow> Inl InvalidPublicKey
                | Some a \<Rightarrow>
                    (case newPublicKey (slice data' 40 72) of
                       None \<Rightarrow> Inl InvalidPublicKey
                     | Some b \<Rightarrow>
                         Inr (\<lparr> type = type', pda = pda', messageCountOffset = 104,
                                discriminator = DISCRIMINATORS_sendMessage,
                                owner = None,
                                participantA = Some a,
                                participantB = Some b,
                                channelName = None \<rparr>, data')))
           | channel \<Rightarrow>
               (case newPublicKey (slice data' 8 40) of
                  None \<Rightarrow> Inl InvalidPublicKey
                | Some owner' \<Rightarrow>
                    (case readUInt32LE data' 40 of
                       Inl e \<Rightarrow> Inl e
                     | Inr channelNameLen \<Rightarrow>
                         Inr (\<lparr> type = type', pda = pda', messageCountOffset = 76,
                                discriminator = DISCRIMINATORS_sendBroadcast,
                                owner = Some owner',
                                participantA = None,
                                participantB = None,
                                channelName =
                                  Some (toString_utf8
                                          (slice data' 44 (44 + channelNameLen))) \<rparr>,
                              data')))))"

text \<open>
  Every command follows \<^verbatim>\<open>_fetchAccountData\<close> with
  \<^verbatim>\<open>accountData.readUInt32LE(metadata.messageCountOffset)\<close>.
\<close>

definition fetchMessageCount ::
  "Connection \<Rightarrow> PublicKey \<Rightarrow> AccountType \<Rightarrow> error + (AccountMetadata \<times> nat)" where
  "fetchMessageCount connection pda' type' =
     (case fetchAccountData connection pda' type' of
        Inl e \<Rightarrow> Inl e
      | Inr (metadata, accountData) \<Rightarrow>
          (case readUInt32LE accountData (messageCountOffset metadata) of
             Inl e \<Rightarrow> Inl e
           | Inr messageCount \<Rightarrow> Inr (metadata, messageCount)))"

section \<open>History reconstruction: \<^verbatim>\<open>_fetchNewMessages\<close>\<close>

text \<open>
  The model follows \<^verbatim>\<open>cli/src/index.ts\<close>. The readers of \<^verbatim>\<open>cli2/dist/index.js\<close>
  (\<^verbatim>\<open>readMessagesCommand\<close>, \<^verbatim>\<open>readBroadcastsCommand\<close>) run the same two loops and the
  same sort inline, with the same guards, without a starting index (every index is kept,
  as from 0) and without the signature in the entries.
\<close>

text \<open>
  The cipher (\<^verbatim>\<open>decryptMessage\<close>: AES-256-CBC under a key derived from the secret) is a
  parameter of the model: \<open>decryptMessage encrypted sharedSecret\<close> is \<open>Some\<close> plaintext,
  or \<open>None\<close> where the source's function throws.
\<close>

type_synonym cipher = "Buffer \<Rightarrow> string \<Rightarrow> string option"

record MessageEntry =
  index :: nat
  sender :: PublicKey
  content :: string
  timestamp :: "nat option"
  signature :: TransactionSignature

text \<open>
  What the body of the inner loop does with one instruction:
  \<^item> \<open>NotMatched\<close>: the program or the discriminator test fails, nothing happens;
  \<^item> \<open>Faulted\<close>: an exception leaves the loop over the instructions and reaches the
    \<^verbatim>\<open>catch\<close> around the whole transaction (an undefined program key, a
    \<^verbatim>\<open>readUInt32LE\<close> out of range);
  \<^item> \<open>Filtered\<close>: the index is below \<^verbatim>\<open>startingIndex\<close>;
  \<^item> \<open>Dropped\<close>: the inner \<^verbatim>\<open>catch\<close> swallows a failed decryption, or the
    TypeError of an undefined sender;
  \<^item> \<open>Pushed\<close>: \<^verbatim>\<open>messages.push({...})\<close>.
\<close>

datatype outcome = NotMatched | Faulted | Filtered | Dropped | Pushed MessageEntry

text \<open>\<^verbatim>\<open>message.staticAccountKeys[ix.accountKeyIndexes[1]]\<close>, \<open>None\<close> when undefined.\<close>

definition senderKey :: "VersionedMessage \<Rightarrow> CompiledInstruction \<Rightarrow> PublicKey option" where
  "senderKey message' ix =
     (case lookup (accountKeyIndexes ix) 1 of
        None \<Rightarrow> None
      | Some k \<Rightarrow> lookup (staticAccountKeys message') k)"

definition scanInstruction ::
  "cipher \<Rightarrow> AccountMetadata \<Rightarrow> string \<Rightarrow> nat \<Rightarrow> VersionedMessage \<Rightarrow> TransactionResponse
     \<Rightarrow> TransactionSignature \<Rightarrow> CompiledInstruction \<Rightarrow> outcome" where
  "scanInstruction decryptMessage metadata sharedSecret startingIndex message' tx sig ix =
     (case lookup (staticAccountKeys message') (programIdIndex ix) of
        None \<Rightarrow> Faulted
      | Some programId \<Rightarrow>
          if programId = PROGRAM_ID then
            (let ixData = data ix in
             if length ixData > 8 \<and> slice ixData 0 8 = discriminator metadata then
               (case readUInt32LE ixData 8 of
                  Inl _ \<Rightarrow> Faulted
                | Inr messageIndex \<Rightarrow>
                    (case readUInt32LE ixData 12 of
                       Inl _ \<Rightarrow> Faulted
                     | Inr contentLength \<Rightarrow>
                         (let encrypted = slice ixData 16 (16 + contentLength) in
                          if messageIndex \<ge> startingIndex then
                            (case decryptMessage encrypted sharedSecret of
                               None \<Rightarrow> Dropped
                             | Some decrypted \<Rightarrow>
                                 (case senderKey message' ix of
                                    None \<Rightarrow> Dropped
                                  | Some sender' \<Rightarrow>
                                      Pushed \<lparr> index = messageIndex, sender = sender',
                                               content = decrypted, timestamp = blockTime tx,
                                               signature = sig \<rparr>))
                          else Filtered)))
             else NotMatched)
          else NotMatched)"

text \<open>The loop over \<^verbatim>\<open>message.compiledInstructions\<close>, threading the array \<^verbatim>\<open>messages\<close>.\<close>

fun scanInstructions ::
  "(CompiledInstruction \<Rightarrow> outcome) \<Rightarrow> CompiledInstruction list \<Rightarrow> MessageEntry list
     \<Rightarrow> MessageEntry list" where
  "scanInstructions step [] messages = messages"
| "scanInstructions step (ix # ixs) messages =
     (case step ix of
        Faulted \<Rightarrow> messages
      | Pushed m \<Rightarrow> scanInstructions step ixs (messages @ [m])
      | _ \<Rightarrow> scanInstructions step ixs messages)"

text \<open>
  The body of the loop over the references: a rejected or empty \<^verbatim>\<open>getTransaction\<close> and a
  message without \<^verbatim>\<open>compiledInstructions\<close> leave \<^verbatim>\<open>messages\<close> as it is.
\<close>

definition scanReference ::
  "cipher \<Rightarrow> Connection \<Rightarrow> AccountMetadata \<Rightarrow> string \<Rightarrow> nat \<Rightarrow> TransactionSignature
     \<Rightarrow> MessageEntry list \<Rightarrow> MessageEntry list" where
  "scanReference decryptMessage connection metadata sharedSecret startingIndex sig messages =
     (case getTransaction connection sig of
        Inl _ \<Rightarrow> messages
      | Inr None \<Rightarrow> messages
      | Inr (Some tx) \<Rightarrow>
          (case transaction tx of
             None \<Rightarrow> messages
           | Some message' \<Rightarrow>
               (case compiledInstructions message' of
                  None \<Rightarrow> messages
                | Some ixs \<Rightarrow>
                    scanInstructions
                      (scanInstruction decryptMessage metadata sharedSecret startingIndex
                         message' tx sig)
                      ixs messages)))"

definition scanReferences ::
  "cipher \<Rightarrow> Connection \<Rightarrow> AccountMetadata \<Rightarrow> string \<Rightarrow> nat \<Rightarrow> TransactionSignature list
     \<Rightarrow> MessageEntry list" where
  "scanReferences decryptMessage connection metadata sharedSecret startingIndex signatures =
     foldl (\<lambda>messages sig.
              scanReference decryptMessage connection metadata sharedSecret startingIndex
                sig messages)
       [] signatures"

text \<open>
  \<^verbatim>\<open>messages.sort((a, b) => a.index - b.index)\<close>: the indices are below \<open>2^32\<close>, so the
  comparator is the order of the indices, and the sort of the array is stable;
  \<open>sort_key\<close> is the stable sort by a key.
\<close>

definition fetchNewMessages ::
  "cipher \<Rightarrow> Connection \<Rightarrow> AccountMetadata \<Rightarrow> string \<Rightarrow> nat \<Rightarrow> error + MessageEntry list" where
  "fetchNewMessages decryptMessage connection metadata sharedSecret startingIndex =
     (case getSignaturesForAddress connection (pda metadata) 1000 of
        Inl e \<Rightarrow> Inl e
      | Inr signatures \<Rightarrow>
          Inr (sort_key index
                 (scanReferences decryptMessage connection metadata sharedSecret startingIndex
                    signatures)))"

text \<open>
  The same history, reference by reference and without the loops: the instructions a
  reference delivers (none when its transaction cannot be fetched or has no compiled
  instructions), what the scan does with each of them, and the entries the reference
  contributes: one for every instruction that is pushed, up to the first instruction that
  faults.
\<close>

definition instructionsOf :: "Connection \<Rightarrow> TransactionSignature \<Rightarrow> CompiledInstruction list" where
  "instructionsOf connection sig =
     (case getTransaction connection sig of
        Inr (Some tx) \<Rightarrow>
          (case transaction tx of
             Some message' \<Rightarrow>
               (case compiledInstructions message' of Some ixs \<Rightarrow> ixs | None \<Rightarrow> [])
           | None \<Rightarrow> [])
      | _ \<Rightarrow> [])"

definition outcomeOf ::
  "cipher \<Rightarrow> Connection \<Rightarrow> AccountMetadata \<Rightarrow> string \<Rightarrow> nat \<Rightarrow> TransactionSignature
     \<Rightarrow> CompiledInstruction \<Rightarrow> outcome" where
  "outcomeOf decryptMessage connection metadata sharedSecret startingIndex sig ix =
     (case getTransaction connection sig of
        Inr (Some tx) \<Rightarrow>
          (case transaction tx of
             Some message' \<Rightarrow>
               scanInstruction decryptMessage metadata sharedSecret startingIndex message' tx
                 sig ix
           | None \<Rightarrow> NotMatched)
      | _ \<Rightarrow> NotMatched)"

text \<open>The instructions of a reference that the filter of the scan from 0 matches.\<close>

definition matchedInstructions ::
  "cipher \<Rightarrow> Connection \<Rightarrow> AccountMetadata \<Rightarrow> string \<Rightarrow> TransactionSignature
     \<Rightarrow> CompiledInstruction list" where
  "matchedInstructions decryptMessage connection metadata sharedSecret sig =
     filter (\<lambda>ix. outcomeOf decryptMessage connection metadata sharedSecret 0 sig ix
                  \<noteq> NotMatched)
       (instructionsOf connection sig)"

definition pushed :: "outcome \<Rightarrow> MessageEntry list" where
  "pushed r = (case r of Pushed m \<Rightarrow> [m] | _ \<Rightarrow> [])"

definition referenceEntries ::
  "cipher \<Rightarrow> Connection \<Rightarrow> AccountMetadata \<Rightarrow> string \<Rightarrow> nat \<Rightarrow> TransactionSignature
     \<Rightarrow> MessageEntry list" where
  "referenceEntries decryptMessage connection metadata sharedSecret startingIndex sig =
     concat
       (map (\<lambda>ix. pushed (outcomeOf decryptMessage connection metadata sharedSecret
                           startingIndex sig ix))
          (takeWhile
             (\<lambda>ix. outcomeOf decryptMessage connection metadata sharedSecret startingIndex
                     sig ix \<noteq> Faulted)
             (instructionsOf connection sig)))"

text \<open>
  The payload the send commands build:
  \<^verbatim>\<open>Buffer.concat([discriminator, u32(messageCount), u32(encrypted.length), encrypted])\<close>.
\<close>

definition messageData :: "Buffer \<Rightarrow> nat \<Rightarrow> Buffer \<Rightarrow> Buffer" where
  "messageData disc messageCount encrypted =
     disc @ u32le messageCount @ u32le (length encrypted) @ encrypted"

section \<open>The live listener: \<^verbatim>\<open>monitorPdaUpdates\<close>\<close>

text \<open>
  The callback of \<^verbatim>\<open>onAccountChange\<close>, one notification at a time. Its state is the
  variable \<^verbatim>\<open>initialCount\<close>; what it prints is a list of reports.
\<close>

datatype report =
    NewReceived                 \<comment> \<open>the banner "New Message/Broadcast Received"\<close>
  | LatestContent MessageEntry  \<comment> \<open>index, sender and content of \<^verbatim>\<open>latestMessage\<close>\<close>
  | CouldNotFind nat nat        \<comment> \<open>"Could not find or decrypt new content" (old, new count)\<close>
  | FetchError error            \<comment> \<open>"Decryption/Fetch Error"\<close>

definition onAccountChange ::
  "cipher \<Rightarrow> Connection \<Rightarrow> AccountMetadata \<Rightarrow> string \<Rightarrow> nat \<Rightarrow> Buffer
     \<Rightarrow> error + (nat \<times> report list)" where
  "onAccountChange decryptMessage connection metadata sharedSecret initialCount updatedData =
     (case readUInt32LE updatedData (messageCountOffset metadata) of
        Inl e \<Rightarrow> Inl e
      | Inr newCount \<Rightarrow>
          if newCount > initialCount then
            Inr (newCount,
                 [NewReceived,
                  (case fetchNewMessages decryptMessage connection metadata sharedSecret
                          initialCount of
                     Inl e \<Rightarrow> FetchError e
                   | Inr newMessages \<Rightarrow>
                       if length newMessages > 0
                       then LatestContent (newMessages ! (length newMessages - 1))
                       else CouldNotFind initialCount newCount)])
          else Inr (initialCount, []))"

section \<open>The commands and the key\<close>

text \<open>
  \<^verbatim>\<open>new PublicKey(address)\<close> for a string: the Base58 decoding of \<^verbatim>\<open>bs58\<close> (every leading
  \<open>1\<close> is a zero byte, the rest is a number in base 58 written in the fewest bytes, a
  character outside the alphabet is an error), which must give exactly 32 bytes. For
  \<^verbatim>\<open>undefined\<close> the constructor raises a TypeError.
\<close>

definition base58Alphabet :: string where
  "base58Alphabet = ''123456789ABCDEFGHJKLMNPQRSTUVWXYZabcdefghijkmnopqrstuvwxyz''"

fun position :: "string \<Rightarrow> char \<Rightarrow> nat option" where
  "position [] c = None"
| "position (x # xs) c = (if x = c then Some 0 else map_option Suc (position xs c))"

fun base58Number :: "string \<Rightarrow> nat \<Rightarrow> nat option" where
  "base58Number [] n = Some n"
| "base58Number (c # cs) n =
     (case position base58Alphabet c of
        None \<Rightarrow> None
      | Some digit \<Rightarrow> base58Number cs (n * 58 + digit))"

function natBytes :: "nat \<Rightarrow> Buffer" where
  "natBytes n = (if n = 0 then [] else natBytes (n div 256) @ [of_nat (n mod 256)])"
  by pat_completeness auto
termination
  by (relation "measure id") auto

definition bs58Decode :: "string \<Rightarrow> Buffer option" where
  "bs58Decode source =
     (let zeroes = length (takeWhile (\<lambda>c. c = CHR ''1'') source)
      in case base58Number (drop zeroes source) 0 of
           None \<Rightarrow> None
         | Some n \<Rightarrow> Some (replicate zeroes 0 @ natBytes n))"

definition publicKeyFromString :: "string option \<Rightarrow> error + PublicKey" where
  "publicKeyFromString address =
     (case address of
        None \<Rightarrow> Inl TypeError
      | Some source \<Rightarrow>
          (case bs58Decode source of
             None \<Rightarrow> Inl NonBase58Character
           | Some decoded \<Rightarrow> if length decoded = 32 then Inr decoded else Inl InvalidPublicKey))"

text \<open>
  \<^verbatim>\<open>options.key || "literal"\<close>: the literal replaces a key that is absent, and also
  the empty string, which is falsy.
\<close>

definition orDefault :: "string option \<Rightarrow> string \<Rightarrow> string" where
  "orDefault key literal =
     (case key of None \<Rightarrow> literal | Some k \<Rightarrow> if k = [] then literal else k)"

record options =
  thread_opt :: "string option"    \<comment> \<open>\<^verbatim>\<open>--thread\<close>\<close>
  channel_opt :: "string option"   \<comment> \<open>\<^verbatim>\<open>--channel\<close>\<close>
  key :: "string option"           \<comment> \<open>\<^verbatim>\<open>--key\<close>\<close>
  message_opt :: string            \<comment> \<open>\<^verbatim>\<open>--message\<close>, a required option of both send commands\<close>

text \<open>The line \<^verbatim>\<open>const sharedSecret = options.key || "..."\<close> of each command.\<close>

definition sendMessageCommand_sharedSecret :: "options \<Rightarrow> string" where
  "sendMessageCommand_sharedSecret opts = orDefault (key opts) ''default-secret-key''"

definition readMessagesCommand_sharedSecret :: "options \<Rightarrow> string" where
  "readMessagesCommand_sharedSecret opts = orDefault (key opts) ''default-secret-key''"

definition sendBroadcastCommand_sharedSecret :: "options \<Rightarrow> string" where
  "sendBroadcastCommand_sharedSecret opts = orDefault (key opts) ''default-channel-key''"

definition readBroadcastsCommand_sharedSecret :: "options \<Rightarrow> string" where
  "readBroadcastsCommand_sharedSecret opts = orDefault (key opts) ''default-channel-key''"

text \<open>
  The commands, as far as the key reaches. Taken as parameters: the cipher
  (\<^verbatim>\<open>encryptMessage\<close> and \<^verbatim>\<open>decryptMessage\<close>, AES-256-CBC of Node's \<^verbatim>\<open>crypto\<close>), the wallet
  (\<^verbatim>\<open>loadWallet\<close>, which may throw; only its public key is used here) and the submission
  (\<^verbatim>\<open>sendAndConfirmTransaction\<close>). A command returns the lines it prints about the key,
  and an error (the \<^verbatim>\<open>catch\<close> that ends with \<^verbatim>\<open>process.exit(1)\<close>, or an uncaught throw) or its
  result: the instruction a send command submits, the metadata, count and messages a
  read command displays. The four send and read commands print no line about the key.
\<close>

type_synonym encryptor = "string \<Rightarrow> string \<Rightarrow> Buffer"

record TransactionInstruction =
  instructionProgramId :: PublicKey
  instructionKeys :: "(PublicKey \<times> bool \<times> bool) list"   \<comment> \<open>pubkey, isSigner, isWritable\<close>
  instructionData :: Buffer

datatype notice =
    NoKeyWarning            \<comment> \<open>\<^verbatim>\<open>console.warn\<close>: "Warning: No encryption key (--key) provided. ..."\<close>
  | DecryptionKeyLine bool  \<comment> \<open>"Decryption Key: Provided" (\<open>True\<close>) or "Using default" (\<open>False\<close>)\<close>

definition sendMessageCommand ::
  "encryptor \<Rightarrow> error + PublicKey \<Rightarrow> (TransactionInstruction \<Rightarrow> error + TransactionSignature)
     \<Rightarrow> Connection \<Rightarrow> options \<Rightarrow> notice list \<times> (error + TransactionInstruction)" where
  "sendMessageCommand encryptMessage' loadWallet' sendAndConfirmTransaction' connection' opts =
     ([],
      (case loadWallet' of
         Inl e \<Rightarrow> Inl e
       | Inr walletKey \<Rightarrow>
           (case publicKeyFromString (thread_opt opts) of
              Inl e \<Rightarrow> Inl e
            | Inr threadPDA \<Rightarrow>
                (case fetchMessageCount connection' threadPDA thread of
                   Inl e \<Rightarrow> Inl e
                 | Inr (metadata', messageCount) \<Rightarrow>
                     (let encrypted =
                            encryptMessage' (message_opt opts)
                              (sendMessageCommand_sharedSecret opts);
                          sendIx =
                            \<lparr> instructionProgramId = PROGRAM_ID,
                              instructionKeys =
                                [(threadPDA, False, True), (walletKey, True, False)],
                              instructionData =
                                messageData DISCRIMINATORS_sendMessage messageCount encrypted \<rparr>
                      in case sendAndConfirmTransaction' sendIx of
                           Inl e \<Rightarrow> Inl e
                         | Inr _ \<Rightarrow> Inr sendIx)))))"

definition sendBroadcastCommand ::
  "encryptor \<Rightarrow> error + PublicKey \<Rightarrow> (TransactionInstruction \<Rightarrow> error + TransactionSignature)
     \<Rightarrow> Connection \<Rightarrow> options \<Rightarrow> notice list \<times> (error + TransactionInstruction)" where
  "sendBroadcastCommand encryptMessage' loadWallet' sendAndConfirmTransaction' connection' opts =
     ([],
      (case loadWallet' of
         Inl e \<Rightarrow> Inl e
       | Inr walletKey \<Rightarrow>
           (case publicKeyFromString (channel_opt opts) of
              Inl e \<Rightarrow> Inl e
            | Inr channelPDA \<Rightarrow>
                (case fetchMessageCount connection' channelPDA channel of
                   Inl e \<Rightarrow> Inl e
                 | Inr (metadata', messageCount) \<Rightarrow>
                     (let encrypted =
                            encryptMessage' (message_opt opts)
                              (sendBroadcastCommand_sharedSecret opts);
                          sendIx =
                            \<lparr> instructionProgramId = PROGRAM_ID,
                              instructionKeys =
                                [(channelPDA, False, True), (walletKey, True, False)],
                              instructionData =
                                messageData DISCRIMINATORS_sendBroadcast messageCount encrypted \<rparr>
                      in case sendAndConfirmTransaction' sendIx of
                           Inl e \<Rightarrow> Inl e
                         | Inr _ \<Rightarrow> Inr sendIx)))))"

definition readMessagesCommand ::
  "cipher \<Rightarrow> Connection \<Rightarrow> options
     \<Rightarrow> notice list \<times> (error + AccountMetadata \<times> nat \<times> MessageEntry list)" where
  "readMessagesCommand decryptMessage' connection' opts =
     ([],
      (case publicKeyFromString (thread_opt opts) of
         Inl e \<Rightarrow> Inl e
       | Inr threadPDA \<Rightarrow>
           (case fetchMessageCount connection' threadPDA thread of
              Inl e \<Rightarrow> Inl e
            | Inr (metadata', messageCount) \<Rightarrow>
                (case fetchNewMessages decryptMessage' connection' metadata'
                        (readMessagesCommand_sharedSecret opts) 0 of
                   Inl e \<Rightarrow> Inl e
                 | Inr messages \<Rightarrow> Inr (metadata', messageCount, messages)))))"

definition readBroadcastsCommand ::
  "cipher \<Rightarrow> Connection \<Rightarrow> options
     \<Rightarrow> notice list \<times> (error + AccountMetadata \<times> nat \<times> MessageEntry list)" where
  "readBroadcastsCommand decryptMessage' connection' opts =
     ([],
      (case publicKeyFromString (channel_opt opts) of
         Inl e \<Rightarrow> Inl e
       | Inr channelPDA \<Rightarrow>
           (case fetchMessageCount connection' channelPDA channel of
              Inl e \<Rightarrow> Inl e
            | Inr (metadata', messageCount) \<Rightarrow>
                (case fetchNewMessages decryptMessage' connection' metadata'
                        (readBroadcastsCommand_sharedSecret opts) 0 of
                   Inl e \<Rightarrow> Inl e
                 | Inr messages \<Rightarrow> Inr (metadata', messageCount, messages)))))"

text \<open>
  \<^verbatim>\<open>monitorPdaUpdates\<close> up to the subscription: it exits when neither address is given, warns
  when the key is absent, builds the address (an uncaught throw when it is not a public
  key), takes its secret whatever the kind of the account
  (\<^verbatim>\<open>isThread = !!options.thread\<close>), prints the line about the key, and reads the first
  count. Its result is what the callback \<open>onAccountChange\<close> starts from: the metadata,
  the secret and the count.
\<close>

definition monitorPdaUpdates ::
  "Connection \<Rightarrow> options \<Rightarrow> notice list \<times> (error + AccountMetadata \<times> string \<times> nat)" where
  "monitorPdaUpdates connection' opts =
     (let accountAddress = orDefault (thread_opt opts) (orDefault (channel_opt opts) []);
          isThread = (orDefault (thread_opt opts) [] \<noteq> [])
      in if accountAddress = [] then ([], Inl MissingAddress)
         else
           (let warning = (if orDefault (key opts) [] = [] then [NoKeyWarning] else [])
            in case publicKeyFromString (Some accountAddress) of
                 Inl e \<Rightarrow> (warning, Inl e)
               | Inr targetPDA \<Rightarrow>
                   (let sharedSecret' = orDefault (key opts) ''default-secret-key'';
                        printed =
                          warning @ [DecryptionKeyLine (orDefault (key opts) [] \<noteq> [])]
                    in case fetchMessageCount connection' targetPDA
                              (if isThread then thread else channel) of
                         Inl e \<Rightarrow> (printed, Inl e)
                       | Inr (metadata', initialCount) \<Rightarrow>
                           (printed, Inr (metadata', sharedSecret', initialCount)))))"

section \<open>Concrete accounts and histories\<close>

text \<open>
  The inputs on which the definitions are run below. \<open>demoDecrypt\<close> stands in for the
  cipher there: like AES-256-CBC with padding it rejects an empty input and an input that
  is not a whole number of 16-byte blocks, and it accepts one secret only; its plaintext
  is the input up to the first zero byte.
\<close>

definition demoDecrypt :: cipher where
  "demoDecrypt encrypted sharedSecret =
     (if encrypted \<noteq> [] \<and> length encrypted mod 16 = 0 \<and> sharedSecret = ''mykey''
      then Some (toString_utf8 (takeWhile (\<lambda>b. b \<noteq> 0) encrypted))
      else None)"

definition demoBlock :: "byte \<Rightarrow> Buffer" where
  "demoBlock b = b # replicate 15 0"

definition demoThreadAccount :: Buffer where
  "demoThreadAccount =
     replicate 8 7 @ replicate 32 0 @ replicate 32 1 @ replicate 32 9 @ [5, 0, 0, 0]"

text \<open>
  A channel named \<open>Test\<close>: the length 4 at offset 40, the name at 44, the number 9 right
  after the name (offset 48), and the broadcast count 2 at offset 76.
\<close>

definition demoChannelAccount :: Buffer where
  "demoChannelAccount =
     replicate 8 7 @ replicate 32 3 @ [4, 0, 0, 0] @ [84, 101, 115, 116] @ [9, 0, 0, 0]
       @ replicate 24 0 @ [2, 0, 0, 0]"

definition demoWallet :: PublicKey where
  "demoWallet = replicate 32 1"

definition demoPda :: PublicKey where
  "demoPda = replicate 32 2"

text \<open>
  A transaction as the send commands submit it: the signer, the account and the program
  as static keys, and instructions whose accounts are the account (key 1) and the
  signer (key 0).
\<close>

definition demoInstruction :: "Buffer \<Rightarrow> CompiledInstruction" where
  "demoInstruction payload =
     \<lparr> programIdIndex = 2, accountKeyIndexes = [1, 0], data = payload \<rparr>"

definition demoTransaction :: "CompiledInstruction list \<Rightarrow> error + TransactionResponse option" where
  "demoTransaction ixs =
     Inr (Some \<lparr> transaction =
                   Some \<lparr> staticAccountKeys = [demoWallet, demoPda, PROGRAM_ID],
                          compiledInstructions = Some ixs \<rparr>,
                 blockTime = Some 1700000000 \<rparr>)"

definition demoAppend :: "nat \<Rightarrow> byte \<Rightarrow> error + TransactionResponse option" where
  "demoAppend i b =
     demoTransaction
       [demoInstruction (messageData DISCRIMINATORS_sendMessage i (demoBlock b))]"

definition demoConnection ::
  "Buffer option \<Rightarrow> TransactionSignature list
     \<Rightarrow> (TransactionSignature \<times> (error + TransactionResponse option)) list \<Rightarrow> Connection" where
  "demoConnection account sigs txs =
     \<lparr> getAccountInfo = (\<lambda>_. Inr account),
       signaturesOf = (\<lambda>_. Inr sigs),
       getTransaction = (\<lambda>sig. case map_of txs sig of None \<Rightarrow> Inr None | Some r \<Rightarrow> r) \<rparr>"

definition demoMetadata :: AccountMetadata where
  "demoMetadata =
     \<lparr> type = thread, pda = demoPda, messageCountOffset = 104,
       discriminator = DISCRIMINATORS_sendMessage, owner = None,
       participantA = Some (replicate 32 0), participantB = Some (replicate 32 1),
       channelName = None \<rparr>"

definition demoEntry :: "nat \<Rightarrow> string \<Rightarrow> TransactionSignature \<Rightarrow> MessageEntry" where
  "demoEntry i text' sig =
     \<lparr> index = i, sender = demoWallet, content = text', timestamp = Some 1700000000,
       signature = sig \<rparr>"

text \<open>
  Three appends with the indices 2, 0, 1 in the order of arrival; the transaction of the
  second one begins with an instruction for another program.
\<close>

definition demoForeignInstruction :: CompiledInstruction where
  "demoForeignInstruction = \<lparr> programIdIndex = 1, accountKeyIndexes = [0], data = [3, 0, 0, 0] \<rparr>"

definition demoTxs :: "(TransactionSignature \<times> (error + TransactionResponse option)) list" where
  "demoTxs =
     [(''s2'', demoAppend 2 99),
      (''s0'',
         demoTransaction
           [demoForeignInstruction,
            demoInstruction (messageData DISCRIMINATORS_sendMessage 0 (demoBlock 97))]),
      (''s1'', demoAppend 1 98)]"

text \<open>
  A history with failures: a reference whose fetch is rejected, an append whose
  ciphertext is not a whole block, an append whose payload ends inside the header, and
  two appends that carry the same index 0.
\<close>

definition demoFaultyTxs ::
  "(TransactionSignature \<times> (error + TransactionResponse option)) list" where
  "demoFaultyTxs =
     [(''rejected'', Inl RpcError),
      (''mixed'',
         demoTransaction
           [demoInstruction (messageData DISCRIMINATORS_sendMessage 3 [1, 2, 3]),
            demoInstruction (messageData DISCRIMINATORS_sendMessage 1 (demoBlock 98))]),
      (''short'', demoTransaction [demoInstruction (DISCRIMINATORS_sendMessage @ [0, 0])]),
      (''first'', demoAppend 0 97),
      (''again'', demoAppend 0 65)]"

definition demoHistory :: Connection where
  "demoHistory = demoConnection None [''s2'', ''s0'', ''s1''] demoTxs"

definition demoHistoryPermuted :: Connection where
  "demoHistoryPermuted = demoConnection None [''s0'', ''s1'', ''s2''] demoTxs"

definition demoFaultyHistory :: Connection where
  "demoFaultyHistory =
     demoConnection None [''rejected'', ''mixed'', ''short'', ''first'', ''again'']
       demoFaultyTxs"

text \<open>
  A channel whose one broadcast (index 2) was encrypted under another secret than the
  listener's, and the account data of a notification: a thread whose count at offset 104
  is 3, a channel whose count at offset 76 is 3.
\<close>

definition demoBroadcastHistory :: Connection where
  "demoBroadcastHistory =
     demoConnection (Some demoChannelAccount) [''b2'']
       [(''b2'',
         demoTransaction
           [demoInstruction (messageData DISCRIMINATORS_sendBroadcast 2 (demoBlock 104))])]"

text \<open>
  The cipher of that channel: it encrypts a text into its bytes filled up with zeros to
  whole blocks, and decrypts under the secret that \<^verbatim>\<open>send-broadcast\<close> takes when no key is
  given, and under no other. The options are those of \<^verbatim>\<open>send-broadcast\<close>,
  \<^verbatim>\<open>read-broadcasts\<close> and \<^verbatim>\<open>listen\<close> for this channel without a key; the address is
  \<open>demoPda\<close> in Base58.
\<close>

definition demoChannelEncrypt :: encryptor where
  "demoChannelEncrypt text' sharedSecret =
     (let bytes = map (\<lambda>c. of_nat (of_char c)) text'
      in bytes @ replicate (16 - length bytes mod 16) 0)"

definition demoChannelDecrypt :: cipher where
  "demoChannelDecrypt encrypted sharedSecret =
     (if encrypted \<noteq> [] \<and> length encrypted mod 16 = 0
         \<and> sharedSecret = ''default-channel-key''
      then Some (toString_utf8 (takeWhile (\<lambda>b. b \<noteq> 0) encrypted))
      else None)"

definition demoSubmit :: "TransactionInstruction \<Rightarrow> error + TransactionSignature" where
  "demoSubmit sendIx = Inr ''b2''"

definition demoListenOptions :: options where
  "demoListenOptions =
     \<lparr> thread_opt = None,
       channel_opt = Some ''8qbHbw2BbbTHBW1sbeqakYXVKRQM8Ne7pLK7m6CVfeR'',
       key = None, message_opt = ''h'' \<rparr>"

definition demoThreadUpdate :: Buffer where
  "demoThreadUpdate = replicate 104 0 @ [3, 0, 0, 0]"

definition demoChannelUpdate :: Buffer where
  "demoChannelUpdate = replicate 76 0 @ [3, 0, 0, 0]"

text \<open>
  A payload that declares 32 bytes of ciphertext and carries one block of 16, and a
  payload that is the 8-byte discriminator alone.
\<close>

definition demoOverlongPayload :: Buffer where
  "demoOverlongPayload =
     DISCRIMINATORS_sendMessage @ u32le 0 @ u32le 32 @ demoBlock 97"

definition demoMessage :: VersionedMessage where
  "demoMessage =
     \<lparr> staticAccountKeys = [demoWallet, demoPda, PROGRAM_ID], compiledInstructions = Some [] \<rparr>"

definition demoResponse :: TransactionResponse where
  "demoResponse = \<lparr> transaction = Some demoMessage, blockTime = Some 1700000000 \<rparr>"

text \<open>The little-endian number in the four bytes from \<open>off\<close>, for a read inside the buffer.\<close>

definition le32At :: "Buffer \<Rightarrow> nat \<Rightarrow> nat" where
  "le32At d off =
     unat (d ! off) + unat (d ! (off + 1)) * 2 ^ 8 + unat (d ! (off + 2)) * 2 ^ 16
       + unat (d ! (off + 3)) * 2 ^ 24"

text \<open>The metadata of a channel account of at least 80 bytes \<open>d\<close> at the address \<open>p\<close>.\<close>

definition channelMetadata :: "PublicKey \<Rightarrow> Buffer \<Rightarrow> AccountMetadata" where
  "channelMetadata p d =
     \<lparr> type = channel, pda = p, messageCountOffset = 76,
       discriminator = DISCRIMINATORS_sendBroadcast,
       owner = Some (map ((!) d) [8..<40]),
       participantA = None, participantB = None,
       channelName = Some (toString_utf8 (slice d 44 (44 + le32At d 40))) \<rparr>"

text \<open>The metadata of a thread account of at least 108 bytes \<open>d\<close> at the address \<open>p\<close>.\<close>

definition threadMetadata :: "PublicKey \<Rightarrow> Buffer \<Rightarrow> AccountMetadata" where
  "threadMetadata p d =
     \<lparr> type = thread, pda = p, messageCountOffset = 104,
       discriminator = DISCRIMINATORS_sendMessage, owner = None,
       participantA = Some (map ((!) d) [8..<40]),
       participantB = Some (map ((!) d) [40..<72]),
       channelName = None \<rparr>"

section \<open>Buffers\<close>

lemma slice_nth: "e \<le> length d \<Longrightarrow> slice d s e = map ((!) d) [s..<e]"
proof -
  assume e: "e \<le> length d"
  have "slice d s e = take (e - s) (drop s (map ((!) d) [0..<length d]))"
    by (simp add: slice_def map_nth)
  also have "\<dots> = map ((!) d) (take (e - s) [s..<length d])"
    by (simp add: drop_map take_map)
  also have "take (e - s) [s..<length d] = [s..<e]"
    using e by (cases "s \<le> e") simp_all
  finally show ?thesis .
qed

lemma newPublicKey_32: "length bs = 32 \<Longrightarrow> newPublicKey bs = Some bs"
  by (simp add: newPublicKey_def)

lemma newPublicKey_slice: "e - s \<le> 32 \<Longrightarrow> \<exists>k. newPublicKey (slice d s e) = Some k"
  by (simp add: newPublicKey_def slice_def)

lemma unat_byte_of_nat: "unat (of_nat n :: byte) = n mod 256"
  by (simp add: unat_of_nat)

lemma le32_digits:
  "n mod 256 + (n div 256) mod 256 * 256 + (n div 65536) mod 256 * 65536
     + (n div 16777216) mod 256 * 16777216 = (n::nat) mod 4294967296"
proof -
  have d2: "n div 65536 = n div 256 div 256"
    by (simp add: div_mult2_eq [symmetric])
  have d3: "n div 16777216 = n div 256 div 256 div 256"
    by (simp add: div_mult2_eq [symmetric])
  have "n mod 4294967296 = n mod (256 * 16777216)" by simp
  also have "\<dots> = 256 * (n div 256 mod 16777216) + n mod 256"
    by (rule mod_mult2_eq)
  also have "n div 256 mod 16777216 = n div 256 mod (256 * 65536)" by simp
  also have "\<dots> = 256 * (n div 256 div 256 mod 65536) + n div 256 mod 256"
    by (rule mod_mult2_eq)
  also have "n div 256 div 256 mod 65536 = n div 256 div 256 mod (256 * 256)" by simp
  also have "\<dots> = 256 * (n div 256 div 256 div 256 mod 256) + n div 256 div 256 mod 256"
    by (rule mod_mult2_eq)
  finally show ?thesis
    unfolding d2 d3 by (simp add: algebra_simps)
qed

lemma readUInt32LE_le32At:
  "off + 4 \<le> length d \<Longrightarrow> readUInt32LE d off = Inr (le32At d off)"
  by (simp add: readUInt32LE_def le32At_def)

lemma readUInt32LE_short: "length d < off + 4 \<Longrightarrow> readUInt32LE d off = Inl RangeError"
  by (simp add: readUInt32LE_def)

lemma length_u32le: "length (u32le n) = 4"
  by (simp add: u32le_def)

lemma readUInt32LE_u32le:
  "readUInt32LE (pre @ u32le n @ post) (length pre) = Inr (n mod 2 ^ 32)"
  using le32_digits [of n]
  by (simp add: readUInt32LE_def u32le_def nth_append unat_byte_of_nat)

section \<open>Decoding a thread account\<close>

text \<open>
  C4. For a thread account of at least 108 bytes, \<^verbatim>\<open>_fetchAccountData\<close> gives participant A
  as the bytes 8 to 39 and participant B as the bytes 40 to 71 (\<open>threadMetadata\<close>), and the
  message count the commands read is the little-endian number in the bytes 104 to 107. The result depends
  on the bytes and the address alone: any connection that holds the same bytes gives the
  same record.
\<close>

theorem thread_decode:
  assumes "getAccountInfo connection p = Inr (Some d)" and "108 \<le> length d"
  shows "fetchAccountData connection p thread = Inr (threadMetadata p d, d)
       \<and> fetchMessageCount connection p thread =
           Inr (threadMetadata p d, le32At d 104)
       \<and> (\<forall>connection'. getAccountInfo connection' p = Inr (Some d) \<longrightarrow>
             fetchMessageCount connection' p thread = fetchMessageCount connection p thread)"
proof -
  have A: "newPublicKey (slice d 8 40) = Some (map ((!) d) [8..<40])"
    using assms(2) by (simp add: slice_nth newPublicKey_32)
  have B: "newPublicKey (slice d 40 72) = Some (map ((!) d) [40..<72])"
    using assms(2) by (simp add: slice_nth newPublicKey_32)
  have F: "fetchAccountData c p thread = Inr (threadMetadata p d, d)"
    if "getAccountInfo c p = Inr (Some d)" for c
    using that by (simp add: fetchAccountData_def A B threadMetadata_def)
  have C: "fetchMessageCount c p thread =
           Inr (threadMetadata p d, le32At d 104)"
    if "getAccountInfo c p = Inr (Some d)" for c
    using that assms(2)
    by (simp add: fetchMessageCount_def F readUInt32LE_le32At threadMetadata_def)
  show ?thesis using assms(1) by (simp add: F C)
qed

theorem thread_decode_witness:
  "getAccountInfo (demoConnection (Some demoThreadAccount) [] []) demoPda
     = Inr (Some demoThreadAccount)
   \<and> 108 \<le> length demoThreadAccount
   \<and> fetchMessageCount (demoConnection (Some demoThreadAccount) [] []) demoPda thread =
       Inr (\<lparr> type = thread, pda = demoPda, messageCountOffset = 104,
              discriminator = DISCRIMINATORS_sendMessage, owner = None,
              participantA = Some (replicate 32 0),
              participantB = Some (replicate 32 1),
              channelName = None \<rparr>, 5)
   \<and> fetchMessageCount (demoConnection (Some demoThreadAccount) [''s0''] demoTxs) demoPda thread
       = fetchMessageCount (demoConnection (Some demoThreadAccount) [] []) demoPda thread"
proof -
  let ?c = "demoConnection (Some demoThreadAccount) [] []"
  let ?c' = "demoConnection (Some demoThreadAccount) [''s0''] demoTxs"
  have g: "getAccountInfo ?c demoPda = Inr (Some demoThreadAccount)"
    by (simp add: demoConnection_def)
  have g': "getAccountInfo ?c' demoPda = Inr (Some demoThreadAccount)"
    by (simp add: demoConnection_def)
  have l: "108 \<le> length demoThreadAccount"
    by (simp add: demoThreadAccount_def)
  have a: "map ((!) demoThreadAccount) [8..<40] = replicate 32 0"
    by code_simp
  have b: "map ((!) demoThreadAccount) [40..<72] = replicate 32 1"
    by code_simp
  have c: "le32At demoThreadAccount 104 = 5"
    by (simp add: le32At_def demoThreadAccount_def nth_append)
  note t = thread_decode [OF g l]
  have "fetchMessageCount ?c demoPda thread =
          Inr (threadMetadata demoPda demoThreadAccount, le32At demoThreadAccount 104)"
    using t by (rule conjunct2 [THEN conjunct1])
  then have m: "fetchMessageCount ?c demoPda thread =
          Inr (\<lparr> type = thread, pda = demoPda, messageCountOffset = 104,
              discriminator = DISCRIMINATORS_sendMessage, owner = None,
              participantA = Some (replicate 32 0),
              participantB = Some (replicate 32 1),
              channelName = None \<rparr>, 5)"
    unfolding threadMetadata_def a b c .
  have "fetchMessageCount ?c' demoPda thread = fetchMessageCount ?c demoPda thread"
    using t g' by blast
  with g l m show ?thesis by blast
qed

section \<open>Reconstruction: the loops\<close>

lemma scanInstructions_append:
  "scanInstructions step ixs (acc @ ms) = acc @ scanInstructions step ixs ms"
proof (induction ixs arbitrary: ms)
  case Nil
  show ?case by simp
next
  case (Cons ix ixs)
  show ?case
  proof (cases "step ix")
    case (Pushed m)
    then show ?thesis using Cons.IH [of "ms @ [m]"] by simp
  qed (simp_all add: Cons.IH)
qed

lemma scanInstructions_acc:
  "scanInstructions step ixs acc = acc @ scanInstructions step ixs []"
  using scanInstructions_append [of step ixs acc "[]"] by simp

lemma scanReference_acc:
  "scanReference dec c md s k sig acc = acc @ scanReference dec c md s k sig []"
  unfolding scanReference_def
  by (simp split: sum.split option.split add: scanInstructions_acc [of _ _ acc])

lemma foldl_scan_acc:
  "foldl (\<lambda>messages sig. scanReference dec c md s k sig messages) acc sigs =
   acc @ concat (map (\<lambda>sig. scanReference dec c md s k sig []) sigs)"
proof (induction sigs arbitrary: acc)
  case Nil
  show ?case by simp
next
  case (Cons sig sigs)
  show ?case
    using scanReference_acc [of dec c md s k sig acc] by (simp add: Cons.IH)
qed

lemma scanReferences_concat:
  "scanReferences dec c md s k sigs =
   concat (map (\<lambda>sig. scanReference dec c md s k sig []) sigs)"
  unfolding scanReferences_def using foldl_scan_acc [of dec c md s k "[]" sigs] by simp

section \<open>The starting index\<close>

lemma scanInstruction_zero_not_Filtered:
  "scanInstruction dec md s 0 msg tx sig ix \<noteq> Filtered"
  by (simp add: scanInstruction_def Let_def split: option.split sum.split)

lemma scanInstruction_start_cases:
  "scanInstruction dec md s k msg tx sig ix =
     (case scanInstruction dec md s 0 msg tx sig ix of
        Pushed m \<Rightarrow> if k \<le> index m then Pushed m else Filtered
      | Dropped \<Rightarrow>
          (case readUInt32LE (data ix) 8 of
             Inr i \<Rightarrow> if k \<le> i then Dropped else Filtered
           | Inl _ \<Rightarrow> Dropped)
      | other \<Rightarrow> other)"
  by (simp add: scanInstruction_def Let_def split: option.split sum.split)

lemma scanInstructions_start:
  "scanInstructions (scanInstruction dec md s k msg tx sig) ixs [] =
   filter (\<lambda>m. k \<le> index m)
     (scanInstructions (scanInstruction dec md s 0 msg tx sig) ixs [])"
proof (induction ixs)
  case Nil
  show ?case by simp
next
  case (Cons ix ixs)
  show ?case
  proof (cases "scanInstruction dec md s 0 msg tx sig ix")
    case NotMatched
    then show ?thesis using Cons.IH by (simp add: scanInstruction_start_cases [of dec md s k])
  next
    case Faulted
    then show ?thesis by (simp add: scanInstruction_start_cases [of dec md s k])
  next
    case Filtered
    then show ?thesis using scanInstruction_zero_not_Filtered by blast
  next
    case Dropped
    then show ?thesis using Cons.IH
      by (simp add: scanInstruction_start_cases [of dec md s k] split: sum.split)
  next
    case (Pushed m)
    then show ?thesis using Cons.IH
      by (simp add: scanInstruction_start_cases [of dec md s k]
            scanInstructions_acc [of _ ixs "[m]"])
  qed
qed

lemma scanReference_start:
  "scanReference dec c md s k sig [] =
   filter (\<lambda>m. k \<le> index m) (scanReference dec c md s 0 sig [])"
  unfolding scanReference_def
  by (simp split: sum.split option.split add: scanInstructions_start [of dec md s k])

lemma scanReferences_start:
  "scanReferences dec c md s k sigs =
   filter (\<lambda>m. k \<le> index m) (scanReferences dec c md s 0 sigs)"
  by (simp add: scanReferences_concat filter_concat comp_def
        scanReference_start [of dec c md s k])

text \<open>
  C7. For every history, cipher, secret and starting index \<open>k\<close>, \<^verbatim>\<open>_fetchNewMessages\<close>
  from \<open>k\<close> returns the entries of \<^verbatim>\<open>_fetchNewMessages\<close> from 0 whose index is at
  least \<open>k\<close>, the same entries in the same order (and it fails when and as the full
  reconstruction fails).
\<close>

theorem incremental_tail_equivalence:
  "fetchNewMessages decryptMessage connection metadata sharedSecret k =
   map_sum id (filter (\<lambda>m. k \<le> index m))
     (fetchNewMessages decryptMessage connection metadata sharedSecret 0)"
  unfolding fetchNewMessages_def
  by (simp split: sum.split add: filter_sort scanReferences_start [of _ _ _ _ k])

section \<open>Decoding a channel account\<close>

text \<open>
  C2. For every channel account, the broadcast count the commands read is the
  little-endian number at the fixed offset 76 (\<^verbatim>\<open>readUInt32LE(76)\<close>, a RangeError when the
  buffer has fewer than 80 bytes), whatever name length is stored at offset 40: for a
  buffer of at least 80 bytes the decoding succeeds with that count, and overwriting the
  four bytes of the name length leaves the count as it is.
\<close>

theorem channel_count_fixed_offset:
  assumes "getAccountInfo connection p = Inr (Some d)"
  shows "map_sum id snd (fetchMessageCount connection p channel) = readUInt32LE d 76
       \<and> (80 \<le> length d \<longrightarrow>
            fetchMessageCount connection p channel = Inr (channelMetadata p d, le32At d 76)
            \<and> (\<forall>connection' a b c e.
                 getAccountInfo connection' p
                   = Inr (Some (d[40 := a, 41 := b, 42 := c, 43 := e]))
                 \<longrightarrow> map_sum id snd (fetchMessageCount connection' p channel)
                       = Inr (le32At d 76)))"
proof -
  have F: "fetchMessageCount c p channel = Inr (channelMetadata p d', le32At d' 76)"
    if "getAccountInfo c p = Inr (Some d')" and "80 \<le> length d'" for c d'
    using that
    by (simp add: fetchMessageCount_def fetchAccountData_def readUInt32LE_le32At
          channelMetadata_def slice_nth newPublicKey_32)
  have U: "le32At (d[40 := a, 41 := b, 42 := c, 43 := e]) 76 = le32At d 76" for a b c e
    by (simp add: le32At_def)
  have G: "map_sum id snd (fetchMessageCount connection p channel) = readUInt32LE d 76"
  proof (cases "80 \<le> length d")
    case True
    then show ?thesis using F [OF assms] by (simp add: readUInt32LE_le32At)
  next
    case False
    obtain k where "newPublicKey (slice d 8 40) = Some k"
      using newPublicKey_slice [of 40 8 d] by auto
    with False show ?thesis using assms
      by (simp add: fetchMessageCount_def fetchAccountData_def readUInt32LE_def split: sum.split)
  qed
  show ?thesis
    using assms by (simp add: F U G)
qed

theorem channel_count_fixed_offset_witness:
  "getAccountInfo (demoConnection (Some demoChannelAccount) [] []) demoPda
     = Inr (Some demoChannelAccount)
   \<and> 80 \<le> length demoChannelAccount
   \<and> fetchMessageCount (demoConnection (Some demoChannelAccount) [] []) demoPda channel =
       Inr (\<lparr> type = channel, pda = demoPda, messageCountOffset = 76,
              discriminator = DISCRIMINATORS_sendBroadcast,
              owner = Some (replicate 32 3),
              participantA = None, participantB = None,
              channelName = Some ''Test'' \<rparr>, 2)
   \<and> readUInt32LE demoChannelAccount 40 = Inr 4
   \<and> readUInt32LE demoChannelAccount (44 + 4) = Inr 9
   \<and> readUInt32LE demoChannelAccount 76 = Inr 2
   \<and> getAccountInfo
         (demoConnection (Some (demoChannelAccount[40 := 20, 41 := 0, 42 := 0, 43 := 0])) [] [])
         demoPda
       = Inr (Some (demoChannelAccount[40 := 20, 41 := 0, 42 := 0, 43 := 0]))
   \<and> map_sum id snd
         (fetchMessageCount
            (demoConnection (Some (demoChannelAccount[40 := 20, 41 := 0, 42 := 0, 43 := 0])) [] [])
            demoPda channel) = Inr 2"
proof -
  let ?c = "demoConnection (Some demoChannelAccount) [] []"
  let ?c' = "demoConnection (Some (demoChannelAccount[40 := 20, 41 := 0, 42 := 0, 43 := 0])) [] []"
  have g: "getAccountInfo ?c demoPda = Inr (Some demoChannelAccount)"
    by (simp add: demoConnection_def)
  have g': "getAccountInfo ?c' demoPda
              = Inr (Some (demoChannelAccount[40 := 20, 41 := 0, 42 := 0, 43 := 0]))"
    by (simp add: demoConnection_def)
  have l: "80 \<le> length demoChannelAccount"
    by (simp add: demoChannelAccount_def)
  have n: "le32At demoChannelAccount 40 = 4"
    by (simp add: le32At_def demoChannelAccount_def nth_append)
  have k: "le32At demoChannelAccount 76 = 2"
    by (simp add: le32At_def demoChannelAccount_def nth_append)
  have r40: "readUInt32LE demoChannelAccount 40 = Inr 4"
    by (simp add: readUInt32LE_def demoChannelAccount_def nth_append)
  have r48: "readUInt32LE demoChannelAccount (44 + 4) = Inr 9"
    by (simp add: readUInt32LE_def demoChannelAccount_def nth_append)
  have r76: "readUInt32LE demoChannelAccount 76 = Inr 2"
    by (simp add: readUInt32LE_def demoChannelAccount_def nth_append)
  have o: "map ((!) demoChannelAccount) [8..<40] = replicate 32 3"
    by code_simp
  have t: "toString_utf8 (slice demoChannelAccount 44 (44 + 4)) = ''Test''"
    by code_simp
  note th = channel_count_fixed_offset [OF g, THEN conjunct2, rule_format, OF l]
  have "fetchMessageCount ?c demoPda channel =
          Inr (channelMetadata demoPda demoChannelAccount, le32At demoChannelAccount 76)"
    using th by (rule conjunct1)
  then have m: "fetchMessageCount ?c demoPda channel =
       Inr (\<lparr> type = channel, pda = demoPda, messageCountOffset = 76,
              discriminator = DISCRIMINATORS_sendBroadcast,
              owner = Some (replicate 32 3),
              participantA = None, participantB = None,
              channelName = Some ''Test'' \<rparr>, 2)"
    unfolding channelMetadata_def n k o t .
  have "map_sum id snd (fetchMessageCount ?c' demoPda channel)
          = Inr (le32At demoChannelAccount 76)"
    using th g' by blast
  then have u: "map_sum id snd (fetchMessageCount ?c' demoPda channel) = Inr 2"
    unfolding k .
  from g l m r40 r48 r76 g' u show ?thesis by blast
qed

section \<open>One instruction\<close>

lemma scanInstruction_selected:
  assumes "lookup (staticAccountKeys msg) (programIdIndex ix) = Some PROGRAM_ID"
    and "8 < length (data ix)" and "take 8 (data ix) = discriminator md"
    and "16 \<le> length (data ix)"
  shows "scanInstruction dec md s k msg tx sig ix =
     (if k \<le> le32At (data ix) 8 then
        (case dec (slice (data ix) 16 (16 + le32At (data ix) 12)) s of
           None \<Rightarrow> Dropped
         | Some decrypted \<Rightarrow>
             (case senderKey msg ix of
                None \<Rightarrow> Dropped
              | Some sender' \<Rightarrow>
                  Pushed \<lparr> index = le32At (data ix) 8, sender = sender', content = decrypted,
                           timestamp = blockTime tx, signature = sig \<rparr>))
      else Filtered)"
  using assms
  by (simp add: scanInstruction_def Let_def slice_def readUInt32LE_le32At)

lemma demoDecrypt_a: "demoDecrypt (demoBlock 97) ''mykey'' = Some ''a''"
  by code_simp
lemma demoDecrypt_b: "demoDecrypt (demoBlock 98) ''mykey'' = Some ''b''"
  by code_simp
lemma demoDecrypt_c: "demoDecrypt (demoBlock 99) ''mykey'' = Some ''c''"
  by code_simp
lemma demoDecrypt_A: "demoDecrypt (demoBlock 65) ''mykey'' = Some ''A''"
  by code_simp
lemma demoDecrypt_bad: "demoDecrypt [1, 2, 3] ''mykey'' = None"
  by (simp add: demoDecrypt_def)

lemma length_messageData:
  "length (messageData disc i ct) = length disc + 8 + length ct"
  by (simp add: messageData_def length_u32le)

lemma le32At_messageData_8:
  assumes "length disc = 8"
  shows "le32At (messageData disc i ct) 8 = i mod 2 ^ 32"
proof -
  have "readUInt32LE (disc @ u32le i @ (u32le (length ct) @ ct)) (length disc) = Inr (i mod 2 ^ 32)"
    by (rule readUInt32LE_u32le)
  moreover have "readUInt32LE (messageData disc i ct) 8 = Inr (le32At (messageData disc i ct) 8)"
    using assms by (simp add: readUInt32LE_le32At length_messageData)
  ultimately show ?thesis using assms by (simp add: messageData_def)
qed

lemma le32At_messageData_12:
  assumes "length disc = 8"
  shows "le32At (messageData disc i ct) 12 = length ct mod 2 ^ 32"
proof -
  have "readUInt32LE ((disc @ u32le i) @ u32le (length ct) @ ct) (length (disc @ u32le i))
          = Inr (length ct mod 2 ^ 32)"
    by (rule readUInt32LE_u32le)
  moreover have "readUInt32LE (messageData disc i ct) 12 = Inr (le32At (messageData disc i ct) 12)"
    using assms by (simp add: readUInt32LE_le32At length_messageData)
  ultimately show ?thesis using assms by (simp add: messageData_def length_u32le)
qed

lemma scanInstruction_messageData:
  assumes "lookup (staticAccountKeys msg) (programIdIndex ix) = Some PROGRAM_ID"
    and "data ix = messageData (discriminator md) i ct"
    and "length (discriminator md) = 8" and "i < 2 ^ 32" and "length ct < 2 ^ 32"
  shows "scanInstruction dec md s k msg tx sig ix =
     (if k \<le> i then
        (case dec ct s of
           None \<Rightarrow> Dropped
         | Some decrypted \<Rightarrow>
             (case senderKey msg ix of
                None \<Rightarrow> Dropped
              | Some sender' \<Rightarrow>
                  Pushed \<lparr> index = i, sender = sender', content = decrypted,
                           timestamp = blockTime tx, signature = sig \<rparr>))
      else Filtered)"
proof -
  have a: "8 < length (data ix)" "16 \<le> length (data ix)"
    using assms(2,3) by (simp_all add: length_messageData)
  have b: "take 8 (data ix) = discriminator md"
    using assms(2,3) by (simp add: messageData_def)
  have c: "le32At (data ix) 8 = i"
    using assms(2-4) by (simp add: le32At_messageData_8)
  have d: "le32At (data ix) 12 = length ct"
    using assms(2,3,5) by (simp add: le32At_messageData_12)
  have e: "slice (data ix) 16 (16 + length ct) = ct"
    using assms(2,3) by (simp add: slice_def messageData_def length_u32le)
  show ?thesis
    using scanInstruction_selected [OF assms(1) a(1) b a(2), of dec s k tx sig]
    unfolding c d e .
qed

lemma demo_lookup_program:
  "lookup [demoWallet, demoPda, PROGRAM_ID] (programIdIndex (demoInstruction payload)) = Some PROGRAM_ID"
  by (simp add: lookup_def demoInstruction_def)

lemma demo_senderKey:
  "senderKey \<lparr> staticAccountKeys = [demoWallet, demoPda, PROGRAM_ID], compiledInstructions = ixs \<rparr>
     (demoInstruction payload) = Some demoWallet"
  by (simp add: senderKey_def lookup_def demoInstruction_def)

lemma length_disc_sendMessage: "length DISCRIMINATORS_sendMessage = 8"
  by (simp add: DISCRIMINATORS_sendMessage_def)

lemma length_demoBlock: "length (demoBlock b) = 16"
  by (simp add: demoBlock_def)

lemma demo_scanInstruction:
  assumes "i < 2 ^ 32" and "length ct < 2 ^ 32"
  shows "scanInstruction demoDecrypt demoMetadata ''mykey'' k
      \<lparr> staticAccountKeys = [demoWallet, demoPda, PROGRAM_ID], compiledInstructions = ixs \<rparr>
      \<lparr> transaction = t, blockTime = Some 1700000000 \<rparr> sig
      (demoInstruction (messageData DISCRIMINATORS_sendMessage i ct)) =
     (if k \<le> i then
        (case demoDecrypt ct ''mykey'' of
           None \<Rightarrow> Dropped
         | Some decrypted \<Rightarrow> Pushed (demoEntry i decrypted sig))
      else Filtered)"
proof -
  have "scanInstruction demoDecrypt demoMetadata ''mykey'' k
      \<lparr> staticAccountKeys = [demoWallet, demoPda, PROGRAM_ID], compiledInstructions = ixs \<rparr>
      \<lparr> transaction = t, blockTime = Some 1700000000 \<rparr> sig
      (demoInstruction (messageData DISCRIMINATORS_sendMessage i ct)) =
     (if k \<le> i then
        (case demoDecrypt ct ''mykey'' of
           None \<Rightarrow> Dropped
         | Some decrypted \<Rightarrow>
             (case senderKey \<lparr> staticAccountKeys = [demoWallet, demoPda, PROGRAM_ID], compiledInstructions = ixs \<rparr> (demoInstruction (messageData DISCRIMINATORS_sendMessage i ct)) of
                None \<Rightarrow> Dropped
              | Some sender' \<Rightarrow>
                  Pushed \<lparr> index = i, sender = sender', content = decrypted,
                           timestamp = blockTime \<lparr> transaction = t, blockTime = Some 1700000000 \<rparr>, signature = sig \<rparr>))
      else Filtered)"
    using assms
    by (intro scanInstruction_messageData)
       (simp_all add: lookup_def demoInstruction_def demoMetadata_def
          length_disc_sendMessage)
  then show ?thesis
    unfolding demo_senderKey by (simp add: demoEntry_def split: option.split)
qed

lemma demoMessage_keys: "staticAccountKeys demoMessage = [demoWallet, demoPda, PROGRAM_ID]"
  by (simp add: demoMessage_def)

lemma demoOverlongPayload_props:
  "length demoOverlongPayload = 32" "take 8 demoOverlongPayload = DISCRIMINATORS_sendMessage"
  "le32At demoOverlongPayload 8 = 0" "readUInt32LE demoOverlongPayload 12 = Inr 32"
  "le32At demoOverlongPayload 12 = 32"
  "drop 16 demoOverlongPayload = demoBlock 97"
  "slice demoOverlongPayload 16 (16 + 32) = demoBlock 97"
  by (simp_all add: demoOverlongPayload_def DISCRIMINATORS_sendMessage_def demoBlock_def
        le32At_def readUInt32LE_def u32le_def slice_def)

text \<open>
  C5, as the code has it. For every instruction whose program key resolves, the scan
  goes on to the extraction exactly when the program is \<open>PROGRAM_ID\<close>, the payload is
  strictly longer than the 8-byte tag and its first 8 bytes are the tag; a payload that
  is the tag alone is skipped.
\<close>

theorem instruction_filter:
  assumes "lookup (staticAccountKeys message') (programIdIndex ix) = Some programId"
  shows "scanInstruction decryptMessage metadata sharedSecret startingIndex message' tx sig ix
           \<noteq> NotMatched
         \<longleftrightarrow> programId = PROGRAM_ID \<and> 8 < length (data ix)
             \<and> take 8 (data ix) = discriminator metadata"
  using assms
  by (simp add: scanInstruction_def Let_def slice_def split: sum.split option.split)

theorem instruction_filter_witness:
  "lookup (staticAccountKeys demoMessage)
       (programIdIndex (demoInstruction (messageData DISCRIMINATORS_sendMessage 0 (demoBlock 97))))
     = Some PROGRAM_ID
   \<and> 8 < length (data (demoInstruction (messageData DISCRIMINATORS_sendMessage 0 (demoBlock 97))))
   \<and> take 8 (data (demoInstruction (messageData DISCRIMINATORS_sendMessage 0 (demoBlock 97))))
       = discriminator demoMetadata
   \<and> scanInstruction demoDecrypt demoMetadata ''mykey'' 0 demoMessage demoResponse ''sig''
         (demoInstruction (messageData DISCRIMINATORS_sendMessage 0 (demoBlock 97)))
       \<noteq> NotMatched"
proof -
  let ?ix = "demoInstruction (messageData DISCRIMINATORS_sendMessage 0 (demoBlock 97))"
  have p: "lookup (staticAccountKeys demoMessage) (programIdIndex ?ix) = Some PROGRAM_ID"
    by (simp add: demoMessage_keys demo_lookup_program)
  have l: "8 < length (data ?ix)"
    by (simp add: demoInstruction_def length_messageData length_disc_sendMessage
          length_demoBlock)
  have t: "take 8 (data ?ix) = discriminator demoMetadata"
    by (simp add: demoInstruction_def messageData_def demoMetadata_def
          DISCRIMINATORS_sendMessage_def)
  from instruction_filter [OF p, of demoDecrypt demoMetadata "''mykey''" 0 demoResponse "''sig''"]
    p l t show ?thesis by blast
qed

text \<open>
  The claim C5 as stated fails: the payload that consists of the 8 bytes of the tag is not
  shorter than the tag and equals it, and the scan skips it.
\<close>

theorem tag_only_payload_counterexample:
  "lookup (staticAccountKeys demoMessage) (programIdIndex (demoInstruction DISCRIMINATORS_sendMessage))
     = Some PROGRAM_ID
   \<and> length (data (demoInstruction DISCRIMINATORS_sendMessage)) = 8
   \<and> data (demoInstruction DISCRIMINATORS_sendMessage) = discriminator demoMetadata
   \<and> scanInstruction demoDecrypt demoMetadata ''mykey'' 0 demoMessage demoResponse ''sig''
        (demoInstruction DISCRIMINATORS_sendMessage) = NotMatched"
  by (simp add: demoMessage_keys demo_lookup_program demoInstruction_def demoMetadata_def
        length_disc_sendMessage scanInstruction_def lookup_def)

text \<open>
  C3, as the code has it. For every matched payload whose declared content length
  exceeds the bytes after the 16-byte header, no error is raised: the ciphertext is all
  the bytes that remain after the header, and the entry is pushed when the cipher
  accepts them (and the sender resolves), dropped silently when it does not, and
  filtered when its index is below the starting index.
\<close>

theorem overlong_content_length:
  assumes "lookup (staticAccountKeys message') (programIdIndex ix) = Some PROGRAM_ID"
    and "8 < length (data ix)" and "take 8 (data ix) = discriminator metadata"
    and "readUInt32LE (data ix) 12 = Inr contentLength"
    and "length (data ix) < 16 + contentLength"
  shows "scanInstruction decryptMessage metadata sharedSecret startingIndex message' tx sig ix =
     (if startingIndex \<le> le32At (data ix) 8 then
        (case decryptMessage (drop 16 (data ix)) sharedSecret of
           None \<Rightarrow> Dropped
         | Some decrypted \<Rightarrow>
             (case senderKey message' ix of
                None \<Rightarrow> Dropped
              | Some sender' \<Rightarrow>
                  Pushed \<lparr> index = le32At (data ix) 8, sender = sender', content = decrypted,
                           timestamp = blockTime tx, signature = sig \<rparr>))
      else Filtered)
   \<and> scanInstruction decryptMessage metadata sharedSecret startingIndex message' tx sig ix
       \<noteq> Faulted"
proof -
  have len: "16 \<le> length (data ix)"
    using assms(4) by (simp add: readUInt32LE_def split: if_splits)
  have cl: "le32At (data ix) 12 = contentLength"
    using assms(4) len by (simp add: readUInt32LE_le32At)
  have "slice (data ix) 16 (16 + contentLength) = drop 16 (data ix)"
    using assms(5) by (simp add: slice_def)
  then show ?thesis
    using scanInstruction_selected [OF assms(1-3) len]
    by (simp add: cl split: option.split)
qed

theorem overlong_content_length_witness:
  "lookup (staticAccountKeys demoMessage) (programIdIndex (demoInstruction demoOverlongPayload))
     = Some PROGRAM_ID
   \<and> 8 < length (data (demoInstruction demoOverlongPayload))
   \<and> take 8 (data (demoInstruction demoOverlongPayload)) = discriminator demoMetadata
   \<and> readUInt32LE (data (demoInstruction demoOverlongPayload)) 12 = Inr 32
   \<and> length (data (demoInstruction demoOverlongPayload)) < 16 + 32
   \<and> scanInstruction demoDecrypt demoMetadata ''wrong'' 0 demoMessage demoResponse ''sig''
        (demoInstruction demoOverlongPayload) = Dropped"
proof -
  let ?ix = "demoInstruction demoOverlongPayload"
  have d: "data ?ix = demoOverlongPayload"
    by (simp add: demoInstruction_def)
  have p: "lookup (staticAccountKeys demoMessage) (programIdIndex ?ix) = Some PROGRAM_ID"
    by (simp add: demoMessage_keys demo_lookup_program)
  have l: "8 < length (data ?ix)"
    by (simp add: d demoOverlongPayload_props)
  have t: "take 8 (data ?ix) = discriminator demoMetadata"
    by (simp add: d demoOverlongPayload_props demoMetadata_def)
  have r: "readUInt32LE (data ?ix) 12 = Inr 32"
    by (simp add: d demoOverlongPayload_props)
  have s: "length (data ?ix) < 16 + 32"
    by (simp add: d demoOverlongPayload_props)
  have w: "demoDecrypt (drop 16 (data ?ix)) ''wrong'' = None"
    by (simp add: demoDecrypt_def)
  have "scanInstruction demoDecrypt demoMetadata ''wrong'' 0 demoMessage demoResponse ''sig'' ?ix
          = Dropped"
    using overlong_content_length
            [OF p l t r s, of demoDecrypt "''wrong''" 0 demoResponse "''sig''",
             THEN conjunct1]
    unfolding w by simp
  with p l t r s show ?thesis by blast
qed

text \<open>
  The claim C3 as stated fails: a payload that declares 32 bytes of ciphertext and carries
  one block of 16 is extracted into an entry.
\<close>

theorem overlong_content_length_counterexample:
  "readUInt32LE (data (demoInstruction demoOverlongPayload)) 12 = Inr 32
   \<and> length (data (demoInstruction demoOverlongPayload)) < 16 + 32
   \<and> scanInstruction demoDecrypt demoMetadata ''mykey'' 0 demoMessage demoResponse ''sig''
        (demoInstruction demoOverlongPayload) = Pushed (demoEntry 0 ''a'' ''sig'')"
proof -
  let ?ix = "demoInstruction demoOverlongPayload"
  have d: "data ?ix = demoOverlongPayload"
    by (simp add: demoInstruction_def)
  have p: "lookup (staticAccountKeys demoMessage) (programIdIndex ?ix) = Some PROGRAM_ID"
    by (simp add: demoMessage_keys demo_lookup_program)
  have l: "8 < length (data ?ix)" "16 \<le> length (data ?ix)"
    by (simp_all add: d demoOverlongPayload_props)
  have t: "take 8 (data ?ix) = discriminator demoMetadata"
    by (simp add: d demoOverlongPayload_props demoMetadata_def)
  have k: "senderKey demoMessage ?ix = Some demoWallet"
    by (simp add: demoMessage_def demo_senderKey)
  have "scanInstruction demoDecrypt demoMetadata ''mykey'' 0 demoMessage demoResponse ''sig'' ?ix
          = Pushed (demoEntry 0 ''a'' ''sig'')"
    using scanInstruction_selected
            [OF p l(1) t l(2), of demoDecrypt "''mykey''" 0 demoResponse "''sig''"]
    unfolding d demoOverlongPayload_props demoDecrypt_a k
    by (simp add: demoEntry_def demoResponse_def)
  then show ?thesis
    by (simp add: d demoOverlongPayload_props(1,4))
qed

section \<open>Reconstruction, reference by reference\<close>

lemma scanInstructions_entries:
  "scanInstructions step ixs [] =
   concat (map (\<lambda>ix. pushed (step ix)) (takeWhile (\<lambda>ix. step ix \<noteq> Faulted) ixs))"
proof (induction ixs)
  case Nil
  show ?case by simp
next
  case (Cons ix ixs)
  show ?case
  proof (cases "step ix")
    case (Pushed m)
    then show ?thesis
      using Cons.IH by (simp add: pushed_def scanInstructions_acc [of step ixs "[m]"])
  qed (simp_all add: Cons.IH pushed_def)
qed

lemma scanReference_entries:
  "scanReference dec c md s k sig [] = referenceEntries dec c md s k sig"
  unfolding scanReference_def referenceEntries_def instructionsOf_def outcomeOf_def
  by (simp split: sum.split option.split add: scanInstructions_entries)

lemma scanReferences_entries:
  "scanReferences dec c md s k sigs = concat (map (referenceEntries dec c md s k) sigs)"
  by (simp add: scanReferences_concat scanReference_entries)

lemma sorted_equal_keys_adjacent:
  assumes "sorted (map f xs)" and "i \<le> k" and "k \<le> j" and "j < length xs"
    and "f (xs ! i) = f (xs ! j)"
  shows "f (xs ! k) = (f (xs ! i) :: nat)"
proof -
  have "map f xs ! i \<le> map f xs ! k"
    using assms by (intro sorted_nth_mono) simp_all
  moreover have "map f xs ! k \<le> map f xs ! j"
    using assms by (intro sorted_nth_mono) simp_all
  ultimately show ?thesis using assms by simp
qed

lemma demoPda_not_program: "demoPda \<noteq> PROGRAM_ID"
proof
  assume "demoPda = PROGRAM_ID"
  then have "hd demoPda = hd PROGRAM_ID" by simp
  then show False by (simp add: demoPda_def PROGRAM_ID_def)
qed

lemma demo_foreign_NotMatched:
  "scanInstruction dec md s k
      \<lparr> staticAccountKeys = [demoWallet, demoPda, PROGRAM_ID], compiledInstructions = ixs \<rparr>
      tx sig demoForeignInstruction = NotMatched"
  by (simp add: scanInstruction_def lookup_def demoForeignInstruction_def demoPda_not_program)

lemma demo_fetch:
  "fetchNewMessages demoDecrypt demoHistory demoMetadata ''mykey'' 0
   = Inr [demoEntry 0 ''a'' ''s0'', demoEntry 1 ''b'' ''s1'', demoEntry 2 ''c'' ''s2'']"
  by (simp add: demoHistory_def fetchNewMessages_def getSignaturesForAddress_def scanReferences_def
        scanReference_def demoConnection_def demoTxs_def demoAppend_def demoTransaction_def
        demo_scanInstruction demo_foreign_NotMatched length_demoBlock demoDecrypt_a
        demoDecrypt_b demoDecrypt_c demoEntry_def)

lemma demo_fetch_permuted:
  "fetchNewMessages demoDecrypt demoHistoryPermuted demoMetadata ''mykey'' 0
   = Inr [demoEntry 0 ''a'' ''s0'', demoEntry 1 ''b'' ''s1'', demoEntry 2 ''c'' ''s2'']"
  by (simp add: demoHistoryPermuted_def fetchNewMessages_def getSignaturesForAddress_def scanReferences_def
        scanReference_def demoConnection_def demoTxs_def demoAppend_def demoTransaction_def
        demo_scanInstruction demo_foreign_NotMatched length_demoBlock demoDecrypt_a
        demoDecrypt_b demoDecrypt_c demoEntry_def)

lemma demo_fetch_from_1:
  "fetchNewMessages demoDecrypt demoHistory demoMetadata ''mykey'' 1
   = Inr [demoEntry 1 ''b'' ''s1'', demoEntry 2 ''c'' ''s2'']"
  by (simp add: demoHistory_def fetchNewMessages_def getSignaturesForAddress_def scanReferences_def
        scanReference_def demoConnection_def demoTxs_def demoAppend_def demoTransaction_def
        demo_scanInstruction demo_foreign_NotMatched length_demoBlock demoDecrypt_a
        demoDecrypt_b demoDecrypt_c demoEntry_def)

lemma demo_short_Faulted:
  "scanInstruction dec demoMetadata s k
      \<lparr> staticAccountKeys = [demoWallet, demoPda, PROGRAM_ID], compiledInstructions = ixs \<rparr>
      tx sig (demoInstruction (DISCRIMINATORS_sendMessage @ [0, 0])) = Faulted"
  by (simp add: scanInstruction_def lookup_def demoInstruction_def demoMetadata_def slice_def
        readUInt32LE_def DISCRIMINATORS_sendMessage_def)

lemma demo_faulty_fetch:
  "fetchNewMessages demoDecrypt demoFaultyHistory demoMetadata ''mykey'' 0
   = Inr [demoEntry 0 ''a'' ''first'', demoEntry 0 ''A'' ''again'', demoEntry 1 ''b'' ''mixed'']"
  by (simp add: demoFaultyHistory_def fetchNewMessages_def getSignaturesForAddress_def scanReferences_def
        scanReference_def demoConnection_def demoFaultyTxs_def demoAppend_def demoTransaction_def
        demo_scanInstruction demo_short_Faulted length_demoBlock demoDecrypt_a demoDecrypt_b demoDecrypt_A
        demoDecrypt_bad demoEntry_def)

lemma demo_instructionsOf:
  "instructionsOf demoHistory ''s2'' = [demoInstruction (messageData DISCRIMINATORS_sendMessage 2 (demoBlock 99))]"
  "instructionsOf demoHistory ''s0'' =
     [demoForeignInstruction,
      demoInstruction (messageData DISCRIMINATORS_sendMessage 0 (demoBlock 97))]"
  "instructionsOf demoHistory ''s1'' = [demoInstruction (messageData DISCRIMINATORS_sendMessage 1 (demoBlock 98))]"
  by (simp_all add: instructionsOf_def demoHistory_def demoConnection_def demoTxs_def demoAppend_def demoTransaction_def)

lemma demo_outcomeOf:
  "outcomeOf demoDecrypt demoHistory demoMetadata ''mykey'' 0 ''s2''
     (demoInstruction (messageData DISCRIMINATORS_sendMessage 2 (demoBlock 99))) = Pushed (demoEntry 2 ''c'' ''s2'')"
  "outcomeOf demoDecrypt demoHistory demoMetadata ''mykey'' 0 ''s0''
     (demoInstruction (messageData DISCRIMINATORS_sendMessage 0 (demoBlock 97))) = Pushed (demoEntry 0 ''a'' ''s0'')"
  "outcomeOf demoDecrypt demoHistory demoMetadata ''mykey'' 0 ''s1''
     (demoInstruction (messageData DISCRIMINATORS_sendMessage 1 (demoBlock 98))) = Pushed (demoEntry 1 ''b'' ''s1'')"
  "outcomeOf demoDecrypt demoHistory demoMetadata ''mykey'' 0 ''s0'' demoForeignInstruction = NotMatched"
  by (simp_all add: outcomeOf_def demoHistory_def demoConnection_def demoTxs_def demoAppend_def demoTransaction_def
        demo_scanInstruction demo_foreign_NotMatched length_demoBlock demoDecrypt_a demoDecrypt_b
        demoDecrypt_c)

lemma demo_matchedInstructions:
  "matchedInstructions demoDecrypt demoHistory demoMetadata ''mykey'' ''s2''
     = [demoInstruction (messageData DISCRIMINATORS_sendMessage 2 (demoBlock 99))]"
  "matchedInstructions demoDecrypt demoHistory demoMetadata ''mykey'' ''s0''
     = [demoInstruction (messageData DISCRIMINATORS_sendMessage 0 (demoBlock 97))]"
  "matchedInstructions demoDecrypt demoHistory demoMetadata ''mykey'' ''s1''
     = [demoInstruction (messageData DISCRIMINATORS_sendMessage 1 (demoBlock 98))]"
  by (simp_all add: matchedInstructions_def demo_instructionsOf demo_outcomeOf del: One_nat_def)

lemma demo_faulty_instructionsOf:
  "instructionsOf demoFaultyHistory ''mixed'' =
     [demoInstruction (messageData DISCRIMINATORS_sendMessage 3 [1, 2, 3])]
       @ demoInstruction (messageData DISCRIMINATORS_sendMessage 1 (demoBlock 98)) # []"
  "instructionsOf demoFaultyHistory ''short'' = [demoInstruction (DISCRIMINATORS_sendMessage @ [0, 0])]"
  by (simp_all add: instructionsOf_def demoFaultyHistory_def demoConnection_def demoFaultyTxs_def demoTransaction_def)

lemma demo_faulty_outcomeOf:
  "outcomeOf demoDecrypt demoFaultyHistory demoMetadata ''mykey'' 0 ''mixed''
     (demoInstruction (messageData DISCRIMINATORS_sendMessage 3 [1, 2, 3])) = Dropped"
  "outcomeOf demoDecrypt demoFaultyHistory demoMetadata ''mykey'' 0 ''mixed''
     (demoInstruction (messageData DISCRIMINATORS_sendMessage 1 (demoBlock 98))) = Pushed (demoEntry 1 ''b'' ''mixed'')"
  "outcomeOf demoDecrypt demoFaultyHistory demoMetadata ''mykey'' 0 ''short''
     (demoInstruction (DISCRIMINATORS_sendMessage @ [0, 0])) = Faulted"
  by (simp_all add: outcomeOf_def demoFaultyHistory_def demoConnection_def demoFaultyTxs_def demoTransaction_def
        demo_scanInstruction demo_short_Faulted length_demoBlock demoDecrypt_b demoDecrypt_bad)

lemma demo_listings:
  "getSignaturesForAddress demoHistory (pda demoMetadata) 1000 = Inr [''s2'', ''s0'', ''s1'']"
  "getSignaturesForAddress demoHistoryPermuted (pda demoMetadata) 1000 = Inr [''s0'', ''s1'', ''s2'']"
  "getSignaturesForAddress demoFaultyHistory (pda demoMetadata) 1000
     = Inr [''rejected'', ''mixed'', ''short'', ''first'', ''again'']"
  "getTransaction demoHistoryPermuted = getTransaction demoHistory"
  "getTransaction demoFaultyHistory ''rejected'' = Inl RpcError"
  by (simp_all add: getSignaturesForAddress_def demoHistory_def demoHistoryPermuted_def
        demoFaultyHistory_def demoConnection_def demoFaultyTxs_def)

lemma mset_concat_map_perm:
  assumes "mset xs = mset ys"
  shows "mset (concat (map f xs)) = mset (concat (map f ys))"
proof -
  have "mset (concat (map f zs)) = sum_mset (image_mset (\<lambda>z. mset (f z)) (mset zs))" for zs
    by (induction zs) simp_all
  then show ?thesis using assms by simp
qed

lemma sorted_mset_unique:
  assumes "sorted xs" and "sorted ys" and "mset xs = mset ys"
  shows "xs = (ys :: nat list)"
proof -
  have "sort xs = ys"
    using assms(2,3) by (intro properties_for_sort) simp_all
  then show ?thesis using assms(1) by (simp add: sorted_sort_id)
qed

lemma scanInstruction_Pushed_index:
  assumes "scanInstruction dec md s k msg tx sig ix = Pushed m"
  shows "index m = le32At (data ix) 8"
  using assms
  by (auto simp: scanInstruction_def Let_def readUInt32LE_def le32At_def
        split: option.splits sum.splits if_splits)

lemma outcomeOf_Pushed_index:
  assumes "outcomeOf dec c md s k sig ix = Pushed m"
  shows "index m = le32At (data ix) 8"
  using assms scanInstruction_Pushed_index
  by (auto simp: outcomeOf_def split: option.splits sum.splits)

lemma referenceEntries_connection:
  assumes "getTransaction c' = getTransaction c"
  shows "referenceEntries dec c' md s k = referenceEntries dec c md s k"
  using assms by (simp add: referenceEntries_def outcomeOf_def instructionsOf_def fun_eq_iff)

lemma referenceEntries_matched_pushed:
  assumes "\<forall>ix\<in>set (matchedInstructions dec c md s sig).
             \<exists>m. outcomeOf dec c md s 0 sig ix = Pushed m"
  shows "referenceEntries dec c md s 0 sig
           = concat (map (\<lambda>ix. pushed (outcomeOf dec c md s 0 sig ix))
                       (matchedInstructions dec c md s sig))"
    and "map index (referenceEntries dec c md s 0 sig)
           = map (\<lambda>ix. le32At (data ix) 8) (matchedInstructions dec c md s sig)"
proof -
  let ?o = "outcomeOf dec c md s 0 sig"
  have nf: "?o ix \<noteq> Faulted" if "ix \<in> set (instructionsOf c sig)" for ix
    using assms that by (cases "?o ix = NotMatched") (auto simp: matchedInstructions_def)
  have tw: "takeWhile (\<lambda>ix. ?o ix \<noteq> Faulted) (instructionsOf c sig) = instructionsOf c sig"
    using nf by (intro takeWhile_eq_all_conv [THEN iffD2]) auto
  have p0: "pushed (?o ix) = []" if "?o ix = NotMatched" for ix
    using that by (simp add: pushed_def)
  have ga: "concat (map (\<lambda>ix. pushed (?o ix)) ixs)
             = concat (map (\<lambda>ix. pushed (?o ix)) (filter (\<lambda>ix. ?o ix \<noteq> NotMatched) ixs))"
    for ixs
    by (induction ixs) (simp_all add: pushed_def)
  have gb: "map index (concat (map (\<lambda>ix. pushed (?o ix)) ixs))
             = map (\<lambda>ix. le32At (data ix) 8) ixs"
    if "\<forall>ix\<in>set ixs. \<exists>m. ?o ix = Pushed m" for ixs
    using that
  proof (induction ixs)
    case Nil
    show ?case by simp
  next
    case (Cons ix ixs)
    then obtain m where m: "?o ix = Pushed m" by auto
    then have "pushed (?o ix) = [m]" by (simp add: pushed_def)
    then show ?case
      using Cons outcomeOf_Pushed_index [OF m] by simp
  qed
  show e: "referenceEntries dec c md s 0 sig
           = concat (map (\<lambda>ix. pushed (?o ix)) (matchedInstructions dec c md s sig))"
    unfolding referenceEntries_def tw matchedInstructions_def by (rule ga)
  show "map index (referenceEntries dec c md s 0 sig)
           = map (\<lambda>ix. le32At (data ix) 8) (matchedInstructions dec c md s sig)"
    unfolding e using assms by (rule gb)
qed

lemma matchedInstructions_connection:
  assumes "getTransaction c' = getTransaction c"
  shows "matchedInstructions dec c' md s = matchedInstructions dec c md s"
  using assms
  by (simp add: matchedInstructions_def outcomeOf_def instructionsOf_def fun_eq_iff)

section \<open>Order and completeness\<close>

text \<open>
  C1. Let every instruction that the filter matches, in the transactions of the
  references the listing returns, decrypt under the secret (the scan from index 0 pushes
  it), and let the indices in the payloads of these instructions be \<open>0, ..., n - 1\<close>, each
  once, in any order of arrival. Then \<^verbatim>\<open>_fetchNewMessages\<close> from 0 returns \<open>n\<close> entries
  with the indices \<open>0, 1, ..., n - 1\<close> in this order, and they are the entries of these
  instructions, none lost; and any listing that returns the same references in another
  order gives the same result.
\<close>

theorem reconstruction_sorted_complete:
  assumes "getSignaturesForAddress connection (pda metadata) 1000 = Inr sigs"
    and "\<forall>sig\<in>set sigs.
           \<forall>ix\<in>set (matchedInstructions decryptMessage connection metadata sharedSecret sig).
             \<exists>m. outcomeOf decryptMessage connection metadata sharedSecret 0 sig ix = Pushed m"
    and "mset (concat (map (\<lambda>sig. map (\<lambda>ix. le32At (data ix) 8)
                                    (matchedInstructions decryptMessage connection metadata
                                       sharedSecret sig)) sigs))
           = mset [0..<n]"
  shows "\<exists>out. fetchNewMessages decryptMessage connection metadata sharedSecret 0 = Inr out
     \<and> map index out = [0..<n]
     \<and> mset out =
         mset (concat (map (\<lambda>sig. concat (map (\<lambda>ix. pushed (outcomeOf decryptMessage connection
                                                      metadata sharedSecret 0 sig ix))
                                        (matchedInstructions decryptMessage connection
                                           metadata sharedSecret sig))) sigs))
     \<and> (\<forall>connection' sigs'.
           getTransaction connection' = getTransaction connection
           \<and> getSignaturesForAddress connection' (pda metadata) 1000 = Inr sigs'
           \<and> mset sigs' = mset sigs
           \<longrightarrow> fetchNewMessages decryptMessage connection' metadata sharedSecret 0 = Inr out)"
proof -
  let ?f = "referenceEntries decryptMessage connection metadata sharedSecret 0"
  let ?mi = "matchedInstructions decryptMessage connection metadata sharedSecret"
  let ?es = "concat (map ?f sigs)"
  let ?out = "sort_key index ?es"
  have r: "fetchNewMessages decryptMessage connection metadata sharedSecret 0 = Inr ?out"
    using assms(1) by (simp add: fetchNewMessages_def scanReferences_entries)
  have e1: "map ?f sigs
          = map (\<lambda>sig. concat (map (\<lambda>ix. pushed (outcomeOf decryptMessage connection
                                                      metadata sharedSecret 0 sig ix))
                                        (?mi sig))) sigs"
    using assms(2) by (intro map_cong refl referenceEntries_matched_pushed(1)) blast
  have e2: "map (\<lambda>sig. map index (?f sig)) sigs
          = map (\<lambda>sig. map (\<lambda>ix. le32At (data ix) 8) (?mi sig)) sigs"
    using assms(2) by (intro map_cong refl referenceEntries_matched_pushed(2)) blast
  have "map index ?es = concat (map (\<lambda>sig. map index (?f sig)) sigs)"
    by (simp add: map_concat comp_def)
  then have i: "mset (map index ?es) = mset [0..<n]"
    using assms(3) by (simp only: e2)
  have d: "distinct (map index ?es)"
    using mset_eq_imp_distinct_iff [OF i] by simp
  have "sorted (map index ?out)"
    by (rule sorted_sort_key)
  moreover have "mset (map index ?out) = mset [0..<n]"
    using i by simp
  ultimately have o: "map index ?out = [0..<n]"
    by (intro sorted_mset_unique) simp_all
  have m: "mset ?out =
         mset (concat (map (\<lambda>sig. concat (map (\<lambda>ix. pushed (outcomeOf decryptMessage connection
                                                      metadata sharedSecret 0 sig ix))
                                        (?mi sig))) sigs))"
    by (simp only: mset_sort e1)
  have p: "fetchNewMessages decryptMessage connection' metadata sharedSecret 0 = Inr ?out"
    if t: "getTransaction connection' = getTransaction connection"
      and l: "getSignaturesForAddress connection' (pda metadata) 1000 = Inr sigs'"
      and ms: "mset sigs' = mset sigs" for connection' sigs'
  proof -
    let ?es' = "concat (map ?f sigs')"
    have "fetchNewMessages decryptMessage connection' metadata sharedSecret 0
            = Inr (sort_key index ?es')"
      using l by (simp add: fetchNewMessages_def scanReferences_entries
                    referenceEntries_connection [OF t])
    moreover have "mset ?es' = mset ?es"
      using ms by (rule mset_concat_map_perm)
    moreover have "inj_on index (set ?es')"
      using d mset_eq_setD [OF \<open>mset ?es' = mset ?es\<close>] by (simp only: distinct_map)
    ultimately show ?thesis
      using sort_key_eq_sort_key [of ?es' ?es index] by simp
  qed
  from r o m p show ?thesis by blast
qed

theorem reconstruction_sorted_complete_witness:
  "getSignaturesForAddress demoHistory (pda demoMetadata) 1000 = Inr [''s2'', ''s0'', ''s1'']
   \<and> map (\<lambda>sig. map (\<lambda>ix. le32At (data ix) 8)
                   (matchedInstructions demoDecrypt demoHistory demoMetadata ''mykey'' sig))
         [''s2'', ''s0'', ''s1''] = [[2], [0], [1]]
   \<and> map (\<lambda>sig. map (outcomeOf demoDecrypt demoHistory demoMetadata ''mykey'' 0 sig)
                   (instructionsOf demoHistory sig)) [''s2'', ''s0'', ''s1'']
       = [[Pushed (demoEntry 2 ''c'' ''s2'')],
          [NotMatched, Pushed (demoEntry 0 ''a'' ''s0'')],
          [Pushed (demoEntry 1 ''b'' ''s1'')]]
   \<and> fetchNewMessages demoDecrypt demoHistory demoMetadata ''mykey'' 0
       = Inr [demoEntry 0 ''a'' ''s0'', demoEntry 1 ''b'' ''s1'', demoEntry 2 ''c'' ''s2'']
   \<and> getSignaturesForAddress demoHistoryPermuted (pda demoMetadata) 1000
       = Inr [''s0'', ''s1'', ''s2'']
   \<and> fetchNewMessages demoDecrypt demoHistoryPermuted demoMetadata ''mykey'' 0
       = Inr [demoEntry 0 ''a'' ''s0'', demoEntry 1 ''b'' ''s1'', demoEntry 2 ''c'' ''s2'']"
proof -
  let ?sigs = "[''s2'', ''s0'', ''s1'']"
  have w: "map (\<lambda>sig. map (\<lambda>ix. le32At (data ix) 8)
                   (matchedInstructions demoDecrypt demoHistory demoMetadata ''mykey'' sig))
             ?sigs = [[2], [0], [1]]"
    by (simp add: demo_matchedInstructions demoInstruction_def le32At_messageData_8
          length_disc_sendMessage del: One_nat_def)
  have o: "map (\<lambda>sig. map (outcomeOf demoDecrypt demoHistory demoMetadata ''mykey'' 0 sig)
                   (instructionsOf demoHistory sig)) ?sigs
       = [[Pushed (demoEntry 2 ''c'' ''s2'')],
          [NotMatched, Pushed (demoEntry 0 ''a'' ''s0'')],
          [Pushed (demoEntry 1 ''b'' ''s1'')]]"
    by (simp add: demo_instructionsOf demo_outcomeOf del: One_nat_def)
  have h2: "\<forall>sig\<in>set ?sigs.
              \<forall>ix\<in>set (matchedInstructions demoDecrypt demoHistory demoMetadata ''mykey'' sig).
                \<exists>m. outcomeOf demoDecrypt demoHistory demoMetadata ''mykey'' 0 sig ix = Pushed m"
    by (simp add: demo_matchedInstructions demo_outcomeOf del: One_nat_def)
  have u: "[0..<3] = [0, 1, 2]"
    by (simp add: upt_rec)
  have h3: "mset (concat (map (\<lambda>sig. map (\<lambda>ix. le32At (data ix) 8)
                                    (matchedInstructions demoDecrypt demoHistory demoMetadata
                                       ''mykey'' sig)) ?sigs))
              = mset [0..<3]"
    unfolding w u by simp
  obtain out where
    f: "fetchNewMessages demoDecrypt demoHistory demoMetadata ''mykey'' 0 = Inr out"
    and p: "\<forall>connection' sigs'.
           getTransaction connection' = getTransaction demoHistory
           \<and> getSignaturesForAddress connection' (pda demoMetadata) 1000 = Inr sigs'
           \<and> mset sigs' = mset ?sigs
           \<longrightarrow> fetchNewMessages demoDecrypt connection' demoMetadata ''mykey'' 0 = Inr out"
    using reconstruction_sorted_complete [OF demo_listings(1) h2 h3] by blast
  have e: "out = [demoEntry 0 ''a'' ''s0'', demoEntry 1 ''b'' ''s1'', demoEntry 2 ''c'' ''s2'']"
    using f by (simp add: demo_fetch)
  have "mset [''s0'', ''s1'', ''s2''] = mset ?sigs"
    by simp
  then have "fetchNewMessages demoDecrypt demoHistoryPermuted demoMetadata ''mykey'' 0 = Inr out"
    using p demo_listings(2,4) by blast
  with demo_listings(1,2) w o f e show ?thesis by blast
qed

section \<open>Duplicates\<close>

text \<open>
  C10. Whenever the listing succeeds, \<^verbatim>\<open>_fetchNewMessages\<close> returns a rearrangement of
  the pushed entries, one for every matched instruction that was decrypted, duplicates
  of an index included: nothing is removed. The result is sorted by index, so entries of
  equal index are adjacent: every entry between two entries of the same index has that
  index too.
\<close>

theorem no_deduplication:
  assumes "getSignaturesForAddress connection (pda metadata) 1000 = Inr sigs"
  shows "\<exists>out. fetchNewMessages decryptMessage connection metadata sharedSecret startingIndex
               = Inr out
     \<and> mset out =
         mset (concat (map (referenceEntries decryptMessage connection metadata sharedSecret
                              startingIndex) sigs))
     \<and> sorted (map index out)
     \<and> (\<forall>i j k. i \<le> k \<and> k \<le> j \<and> j < length out \<and> index (out ! i) = index (out ! j)
            \<longrightarrow> index (out ! k) = index (out ! i))"
proof -
  let ?es = "concat (map (referenceEntries decryptMessage connection metadata sharedSecret
                              startingIndex) sigs)"
  let ?out = "sort_key index ?es"
  have r: "fetchNewMessages decryptMessage connection metadata sharedSecret startingIndex
             = Inr ?out"
    using assms by (simp add: fetchNewMessages_def scanReferences_entries)
  have s: "sorted (map index ?out)"
    by (rule sorted_sort_key)
  have a: "index (?out ! k) = index (?out ! i)"
    if "i \<le> k" "k \<le> j" "j < length ?out" "index (?out ! i) = index (?out ! j)" for i j k
    using sorted_equal_keys_adjacent [OF s that] .
  then have a': "\<forall>i j k. i \<le> k \<and> k \<le> j \<and> j < length ?out \<and> index (?out ! i) = index (?out ! j)
            \<longrightarrow> index (?out ! k) = index (?out ! i)"
    by blast
  have m: "mset ?out = mset ?es"
    by simp
  from r m s a' show ?thesis by blast
qed

theorem no_deduplication_witness:
  "getSignaturesForAddress demoFaultyHistory (pda demoMetadata) 1000
     = Inr [''rejected'', ''mixed'', ''short'', ''first'', ''again'']
   \<and> fetchNewMessages demoDecrypt demoFaultyHistory demoMetadata ''mykey'' 0
       = Inr [demoEntry 0 ''a'' ''first'', demoEntry 0 ''A'' ''again'', demoEntry 1 ''b'' ''mixed'']
   \<and> mset [demoEntry 0 ''a'' ''first'', demoEntry 0 ''A'' ''again'', demoEntry 1 ''b'' ''mixed'']
       = mset (concat (map (referenceEntries demoDecrypt demoFaultyHistory demoMetadata ''mykey'' 0)
                         [''rejected'', ''mixed'', ''short'', ''first'', ''again'']))
   \<and> sorted (map index
        [demoEntry 0 ''a'' ''first'', demoEntry 0 ''A'' ''again'', demoEntry 1 ''b'' ''mixed''])"
proof -
  obtain out where
    f: "fetchNewMessages demoDecrypt demoFaultyHistory demoMetadata ''mykey'' 0 = Inr out"
    and m: "mset out = mset (concat (map (referenceEntries demoDecrypt demoFaultyHistory
              demoMetadata ''mykey'' 0) [''rejected'', ''mixed'', ''short'', ''first'', ''again'']))"
    and s: "sorted (map index out)"
    using no_deduplication [OF demo_listings(3)] by blast
  have e: "out = [demoEntry 0 ''a'' ''first'', demoEntry 0 ''A'' ''again'', demoEntry 1 ''b'' ''mixed'']"
    using f by (simp add: demo_faulty_fetch)
  from demo_listings(3) f m s show ?thesis unfolding e by blast
qed

section \<open>Failures\<close>

text \<open>
  C8. Whenever the listing succeeds, the reconstruction returns a result, whatever
  happens to single references and records: the entry of an instruction that the scan
  pushes is in the result if no instruction before it in its own transaction faults,
  whether or not other references are rejected, missing or faulty, and whether or not
  other records, of its transaction or of others, fail to decrypt.
\<close>

theorem failures_are_contained:
  assumes "getSignaturesForAddress connection (pda metadata) 1000 = Inr sigs"
    and "sig \<in> set sigs"
    and "instructionsOf connection sig = before @ ix # after"
    and "\<forall>j\<in>set before.
           outcomeOf decryptMessage connection metadata sharedSecret startingIndex sig j
             \<noteq> Faulted"
    and "outcomeOf decryptMessage connection metadata sharedSecret startingIndex sig ix
           = Pushed m"
  shows "\<exists>out. fetchNewMessages decryptMessage connection metadata sharedSecret startingIndex
               = Inr out \<and> m \<in> set out"
proof -
  let ?o = "outcomeOf decryptMessage connection metadata sharedSecret startingIndex sig"
  have "takeWhile (\<lambda>j. ?o j \<noteq> Faulted) (before @ ix # after)
          = before @ ix # takeWhile (\<lambda>j. ?o j \<noteq> Faulted) after"
    using assms(4,5) by (simp add: takeWhile_append2)
  then have "m \<in> set (referenceEntries decryptMessage connection metadata sharedSecret
                        startingIndex sig)"
    using assms(3,5) by (simp add: referenceEntries_def pushed_def)
  then have "m \<in> set (scanReferences decryptMessage connection metadata sharedSecret
                        startingIndex sigs)"
    using assms(2) by (auto simp: scanReferences_entries)
  then show ?thesis
    using assms(1) by (simp add: fetchNewMessages_def)
qed

theorem failures_are_contained_witness:
  "getSignaturesForAddress demoFaultyHistory (pda demoMetadata) 1000
     = Inr [''rejected'', ''mixed'', ''short'', ''first'', ''again'']
   \<and> getTransaction demoFaultyHistory ''rejected'' = Inl RpcError
   \<and> outcomeOf demoDecrypt demoFaultyHistory demoMetadata ''mykey'' 0 ''short''
        (demoInstruction (DISCRIMINATORS_sendMessage @ [0, 0])) = Faulted
   \<and> instructionsOf demoFaultyHistory ''mixed'' =
        [demoInstruction (messageData DISCRIMINATORS_sendMessage 3 [1, 2, 3])]
          @ demoInstruction (messageData DISCRIMINATORS_sendMessage 1 (demoBlock 98)) # []
   \<and> outcomeOf demoDecrypt demoFaultyHistory demoMetadata ''mykey'' 0 ''mixed''
        (demoInstruction (messageData DISCRIMINATORS_sendMessage 3 [1, 2, 3])) = Dropped
   \<and> outcomeOf demoDecrypt demoFaultyHistory demoMetadata ''mykey'' 0 ''mixed''
        (demoInstruction (messageData DISCRIMINATORS_sendMessage 1 (demoBlock 98)))
       = Pushed (demoEntry 1 ''b'' ''mixed'')
   \<and> (\<exists>out. fetchNewMessages demoDecrypt demoFaultyHistory demoMetadata ''mykey'' 0 = Inr out
          \<and> demoEntry 1 ''b'' ''mixed'' \<in> set out)"
proof -
  have i: "''mixed'' \<in> set [''rejected'', ''mixed'', ''short'', ''first'', ''again'']"
    by simp
  have b: "\<forall>j\<in>set [demoInstruction (messageData DISCRIMINATORS_sendMessage 3 [1, 2, 3])].
             outcomeOf demoDecrypt demoFaultyHistory demoMetadata ''mykey'' 0 ''mixed'' j
               \<noteq> Faulted"
    by (simp add: demo_faulty_outcomeOf)
  from failures_are_contained
         [OF demo_listings(3) i demo_faulty_instructionsOf(1) b demo_faulty_outcomeOf(2)]
    demo_listings(3,5) demo_faulty_outcomeOf demo_faulty_instructionsOf(1)
  show ?thesis by blast
qed

section \<open>The live listener\<close>

lemma fetchNewMessages_sorted:
  assumes "fetchNewMessages dec c md s k = Inr ms" and "m \<in> set ms"
  shows "k \<le> index m" and "ms \<noteq> [] \<and> index m \<le> index (last ms)"
proof -
  obtain sigs where ms: "ms = sort_key index (scanReferences dec c md s k sigs)"
    using assms(1) by (auto simp: fetchNewMessages_def split: sum.splits)
  have "m \<in> set (filter (\<lambda>m. k \<le> index m) (scanReferences dec c md s 0 sigs))"
    using assms(2) ms scanReferences_start [of dec c md s k sigs] by simp
  then show "k \<le> index m" by simp
  have ne: "ms \<noteq> []" using assms(2) by auto
  have "sorted (map index ms)"
    unfolding ms by (rule sorted_sort_key)
  obtain i where i: "i < length ms" "ms ! i = m"
    using assms(2) by (auto simp: in_set_conv_nth)
  have "map index ms ! i \<le> map index ms ! (length ms - 1)"
    using \<open>sorted (map index ms)\<close> i(1) by (intro sorted_nth_mono) simp_all
  then have "index m \<le> index (last ms)"
    using i ne by (simp add: last_conv_nth)
  then show "ms \<noteq> [] \<and> index m \<le> index (last ms)"
    using ne by simp
qed

lemma demoThreadUpdate_count:
  "readUInt32LE demoThreadUpdate (messageCountOffset demoMetadata) = Inr 3"
  by (simp add: readUInt32LE_def demoThreadUpdate_def demoMetadata_def nth_append)

text \<open>
  C6, as the code has it. For a notification whose data holds the count \<open>newCount\<close> at the
  account's offset: when \<open>newCount\<close> is not above the count seen last, nothing is
  printed and the count stays; when it is above, the listener calls
  \<^verbatim>\<open>_fetchNewMessages\<close> from the count seen last, sets the count to \<open>newCount\<close>, and prints
  the banner and one report: the last entry of the result, which has the highest index
  (every returned entry has an index from the count seen last on), or the soft "could
  not find" report when the result is empty, or the error report when the call fails.
\<close>

theorem listener_step:
  assumes "readUInt32LE updatedData (messageCountOffset metadata) = Inr newCount"
  shows "(newCount \<le> previous \<longrightarrow>
            onAccountChange decryptMessage connection metadata sharedSecret previous updatedData
              = Inr (previous, []))
       \<and> (previous < newCount \<longrightarrow>
            (case fetchNewMessages decryptMessage connection metadata sharedSecret previous of
               Inl e \<Rightarrow>
                 onAccountChange decryptMessage connection metadata sharedSecret previous
                     updatedData
                   = Inr (newCount, [NewReceived, FetchError e])
             | Inr newMessages \<Rightarrow>
                 if newMessages = [] then
                   onAccountChange decryptMessage connection metadata sharedSecret previous
                       updatedData
                     = Inr (newCount, [NewReceived, CouldNotFind previous newCount])
                 else
                   onAccountChange decryptMessage connection metadata sharedSecret previous
                       updatedData
                     = Inr (newCount, [NewReceived, LatestContent (last newMessages)])
                   \<and> (\<forall>m\<in>set newMessages.
                         previous \<le> index m \<and> index m \<le> index (last newMessages))))"
proof -
  have a: "previous \<le> index m \<and> index m \<le> index (last ms)"
    if "fetchNewMessages decryptMessage connection metadata sharedSecret previous = Inr ms"
      and "m \<in> set ms" for ms m
    using fetchNewMessages_sorted [OF that] by simp
  have l: "ms ! (length ms - 1) = last ms" if "ms \<noteq> []" for ms :: "MessageEntry list"
    using that by (simp add: last_conv_nth)
  show ?thesis
  proof (cases "fetchNewMessages decryptMessage connection metadata sharedSecret previous")
    case (Inl e)
    then show ?thesis using assms by (simp add: onAccountChange_def)
  next
    case (Inr ms)
    show ?thesis
    proof (cases "ms = []")
      case True
      then show ?thesis using assms Inr by (simp add: onAccountChange_def)
    next
      case False
      then show ?thesis using assms Inr a [OF Inr] l [OF False]
        by (simp add: onAccountChange_def)
    qed
  qed
qed

theorem listener_step_witness:
  "readUInt32LE demoThreadUpdate (messageCountOffset demoMetadata) = Inr 3
   \<and> onAccountChange demoDecrypt demoHistory demoMetadata ''mykey'' 3 demoThreadUpdate
       = Inr (3, [])
   \<and> fetchNewMessages demoDecrypt demoHistory demoMetadata ''mykey'' 0
       = Inr [demoEntry 0 ''a'' ''s0'', demoEntry 1 ''b'' ''s1'', demoEntry 2 ''c'' ''s2'']
   \<and> onAccountChange demoDecrypt demoHistory demoMetadata ''mykey'' 0 demoThreadUpdate
       = Inr (3, [NewReceived, LatestContent (demoEntry 2 ''c'' ''s2'')])"
proof -
  note t = listener_step [OF demoThreadUpdate_count, of _ demoDecrypt demoHistory "''mykey''"]
  have n: "onAccountChange demoDecrypt demoHistory demoMetadata ''mykey'' 3 demoThreadUpdate
             = Inr (3, [])"
    using t [of 3] by simp
  have "onAccountChange demoDecrypt demoHistory demoMetadata ''mykey'' 0 demoThreadUpdate
             = Inr (3, [NewReceived, LatestContent (demoEntry 2 ''c'' ''s2'')])"
    using t [of 0] by (simp add: demo_fetch)
  with demoThreadUpdate_count n demo_fetch show ?thesis by blast
qed

text \<open>
  The claim C6 as stated fails: from the count 1 to the count 3 the reconstruction returns
  the entries 1 and 2, and the listener prints the entry 2 alone.
\<close>

theorem listener_emits_latest_only_counterexample:
  "readUInt32LE demoThreadUpdate (messageCountOffset demoMetadata) = Inr 3
   \<and> fetchNewMessages demoDecrypt demoHistory demoMetadata ''mykey'' 1
       = Inr [demoEntry 1 ''b'' ''s1'', demoEntry 2 ''c'' ''s2'']
   \<and> onAccountChange demoDecrypt demoHistory demoMetadata ''mykey'' 1 demoThreadUpdate
       = Inr (3, [NewReceived, LatestContent (demoEntry 2 ''c'' ''s2'')])"
  by (simp add: demoThreadUpdate_count demo_fetch_from_1 onAccountChange_def
        del: One_nat_def)

section \<open>Default secrets\<close>

text \<open>
  The addresses: the Base58 decoding gives the program's address from the string of the
  source and the 32 bytes of \<open>demoPda\<close> from its address; a word with a letter outside
  the alphabet and a string that decodes to fewer than 32 bytes are refused.
\<close>

lemma demoPda_bytes:
  "demoPda = [2, 2, 2, 2, 2, 2, 2, 2, 2, 2, 2, 2, 2, 2, 2, 2, 2, 2, 2, 2, 2, 2, 2, 2,
      2, 2, 2, 2, 2, 2, 2, 2]"
  unfolding demoPda_def by code_simp

lemma demoPda_address:
  "publicKeyFromString (Some ''8qbHbw2BbbTHBW1sbeqakYXVKRQM8Ne7pLK7m6CVfeR'') = Inr demoPda"
  unfolding demoPda_bytes
  by (simp add: publicKeyFromString_def bs58Decode_def base58Alphabet_def)

lemma program_address:
  "publicKeyFromString (Some ''9tN5NBvynubfJwQWDqrSoHEE3Xy2MVj3BmHdLu13wCcS'') = Inr PROGRAM_ID"
  by (simp add: publicKeyFromString_def bs58Decode_def base58Alphabet_def PROGRAM_ID_def)

lemma bad_address: "publicKeyFromString (Some ''channel'') = Inl NonBase58Character"
  by (simp add: publicKeyFromString_def bs58Decode_def base58Alphabet_def)

lemma short_address: "publicKeyFromString (Some ''2'') = Inl InvalidPublicKey"
  by (simp add: publicKeyFromString_def bs58Decode_def base58Alphabet_def)

lemma enc_h: "demoChannelEncrypt ''h'' s = demoBlock 104"
  by (simp add: demoChannelEncrypt_def demoBlock_def)

text \<open>
  An entry is pushed only when the cipher accepts the secret, so a history whose matched
  instructions all carry ciphertexts that the secret does not open gives no entry; and an
  instruction that the scan pushes, with no fault before it in its transaction, gives
  one.
\<close>

lemma scanInstruction_Pushed_decrypts:
  assumes "scanInstruction dec md s k msg tx sig ix = Pushed m"
  shows "dec (slice (data ix) 16 (16 + le32At (data ix) 12)) s \<noteq> None"
  using assms
  by (auto simp: scanInstruction_def Let_def readUInt32LE_def le32At_def
        split: option.splits sum.splits if_splits)

lemma outcomeOf_Pushed_decrypts:
  assumes "outcomeOf dec c md s k sig ix = Pushed m"
  shows "dec (slice (data ix) 16 (16 + le32At (data ix) 12)) s \<noteq> None"
  using assms scanInstruction_Pushed_decrypts
  by (auto simp: outcomeOf_def split: option.splits sum.splits)

lemma demoChannelDecrypt_h: "demoChannelDecrypt (demoBlock 104) ''default-channel-key'' = Some ''h''"
  by code_simp

lemma demo_broadcast_scan:
  "scanInstruction demoChannelDecrypt (channelMetadata demoPda demoChannelAccount)
      ''default-channel-key'' 0
      \<lparr> staticAccountKeys = [demoWallet, demoPda, PROGRAM_ID], compiledInstructions = ixs \<rparr>
      \<lparr> transaction = t, blockTime = Some 1700000000 \<rparr> ''b2''
      (demoInstruction (messageData DISCRIMINATORS_sendBroadcast 2 (demoBlock 104)))
   = Pushed (demoEntry 2 ''h'' ''b2'')"
proof -
  let ?msg = "\<lparr> staticAccountKeys = [demoWallet, demoPda, PROGRAM_ID], compiledInstructions = ixs \<rparr>"
  let ?ix = "demoInstruction (messageData DISCRIMINATORS_sendBroadcast 2 (demoBlock 104))"
  let ?md = "channelMetadata demoPda demoChannelAccount"
  have p: "lookup (staticAccountKeys ?msg) (programIdIndex ?ix) = Some PROGRAM_ID"
    by (simp add: lookup_def demoInstruction_def)
  have d: "data ?ix = messageData (discriminator ?md) 2 (demoBlock 104)"
    by (simp add: demoInstruction_def channelMetadata_def)
  have l: "length (discriminator ?md) = 8"
    by (simp add: channelMetadata_def DISCRIMINATORS_sendBroadcast_def)
  have b: "(2::nat) < 2 ^ 32" "length (demoBlock 104) < 2 ^ 32"
    by (simp_all add: length_demoBlock)
  show ?thesis
    using scanInstruction_messageData
            [OF p d l b, of demoChannelDecrypt "''default-channel-key''" 0
               "\<lparr> transaction = t, blockTime = Some 1700000000 \<rparr>" "''b2''"]
    unfolding demoChannelDecrypt_h demo_senderKey
    by (simp add: demoEntry_def)
qed

lemma demo_broadcast_fetch:
  "fetchNewMessages demoChannelDecrypt demoBroadcastHistory
     (channelMetadata demoPda demoChannelAccount) ''default-channel-key'' 0
   = Inr [demoEntry 2 ''h'' ''b2'']"
  by (simp add: fetchNewMessages_def getSignaturesForAddress_def scanReferences_def
        scanReference_def demoBroadcastHistory_def demoConnection_def demoTransaction_def
        demo_broadcast_scan)


lemma fetchMessageCount_metadata:
  assumes "fetchMessageCount c p t = Inr (md, n)"
  shows "length (discriminator md) = 8" and "pda md = p"
  using assms
  by (auto simp: fetchMessageCount_def fetchAccountData_def DISCRIMINATORS_sendMessage_def
        DISCRIMINATORS_sendBroadcast_def split: sum.splits option.splits AccountType.splits)

lemma fetchMessageCount_channel:
  assumes "getAccountInfo c p = Inr (Some d)" and "80 \<le> length d"
  shows "fetchMessageCount c p channel = Inr (channelMetadata p d, le32At d 76)"
  using assms
  by (simp add: fetchMessageCount_def fetchAccountData_def readUInt32LE_le32At
        channelMetadata_def slice_nth newPublicKey_32)

lemma outcomeOf_unmatched:
  assumes "outcomeOf dec c md s 0 sig ix = NotMatched"
  shows "outcomeOf dec c md s k sig ix = NotMatched"
  using assms scanInstruction_start_cases [of dec md s k]
  by (auto simp: outcomeOf_def split: sum.splits option.splits)

lemma referenceEntries_none_pushed:
  assumes "\<forall>ix\<in>set (instructionsOf c sig). \<forall>e. outcomeOf dec c md s k sig ix \<noteq> Pushed e"
  shows "referenceEntries dec c md s k sig = []"
proof -
  have "pushed (outcomeOf dec c md s k sig ix) = []" if "ix \<in> set (instructionsOf c sig)" for ix
    using assms that by (cases "outcomeOf dec c md s k sig ix") (simp_all add: pushed_def)
  then show ?thesis
    by (auto simp: referenceEntries_def dest: set_takeWhileD)
qed

lemma fetchNewMessages_none_pushed:
  assumes "getSignaturesForAddress c (pda md) 1000 = Inr sigs"
    and "\<forall>sig\<in>set sigs. \<forall>ix\<in>set (instructionsOf c sig).
           \<forall>e. outcomeOf dec c md s k sig ix \<noteq> Pushed e"
  shows "fetchNewMessages dec c md s k = Inr []"
proof -
  have e: "concat (map (referenceEntries dec c md s k) sigs) = []"
    using assms(2) by (simp add: referenceEntries_none_pushed)
  have "scanReferences dec c md s k sigs = []"
    using e by (simp only: scanReferences_entries)
  then show ?thesis
    using assms(1) by (simp add: fetchNewMessages_def)
qed

lemma messageData_ciphertext:
  assumes "length disc = 8" and "length ct < 2 ^ 32"
  shows "slice (messageData disc i ct) 16 (16 + le32At (messageData disc i ct) 12) = ct"
proof -
  have "le32At (messageData disc i ct) 12 = length ct"
    using assms by (simp add: le32At_messageData_12)
  then show ?thesis
    using assms(1) by (simp add: slice_def messageData_def length_u32le)
qed

lemma pushed_entry_fetched:
  assumes "getSignaturesForAddress c (pda md) 1000 = Inr sigs"
    and "sig \<in> set sigs"
    and "instructionsOf c sig = before @ ix # after"
    and "\<forall>j\<in>set before. outcomeOf dec c md s k sig j \<noteq> Faulted"
    and "outcomeOf dec c md s k sig ix = Pushed e"
  shows "\<exists>out. fetchNewMessages dec c md s k = Inr out \<and> e \<in> set out"
proof -
  let ?o = "outcomeOf dec c md s k sig"
  have "takeWhile (\<lambda>j. ?o j \<noteq> Faulted) (before @ ix # after)
          = before @ ix # takeWhile (\<lambda>j. ?o j \<noteq> Faulted) after"
    using assms(4,5) by (simp add: takeWhile_append2)
  then have "e \<in> set (referenceEntries dec c md s k sig)"
    using assms(3,5) by (simp add: referenceEntries_def pushed_def)
  then have "e \<in> set (scanReferences dec c md s k sigs)"
    using assms(2) by (auto simp: scanReferences_entries)
  then show ?thesis
    using assms(1) by (simp add: fetchNewMessages_def)
qed

lemma listener_finds_nothing:
  assumes l: "getSignaturesForAddress c (pda md) 1000 = Inr sigs"
    and d: "length (discriminator md) = 8"
    and h: "\<forall>sig\<in>set sigs. \<forall>ix\<in>set (matchedInstructions dec c md s sig).
              \<exists>i text'. data ix = messageData (discriminator md) i (enc text' s0)
                \<and> length (enc text' s0) < 2 ^ 32"
    and w: "\<forall>text' s'. s' \<noteq> s0 \<longrightarrow> dec (enc text' s0) s' = None"
    and n: "s \<noteq> s0"
    and r: "readUInt32LE updatedData (messageCountOffset md) = Inr newCount"
    and p: "previous < newCount"
  shows "onAccountChange dec c md s previous updatedData
           = Inr (newCount, [NewReceived, CouldNotFind previous newCount])"
proof -
  have "outcomeOf dec c md s previous sig ix \<noteq> Pushed e"
    if sg: "sig \<in> set sigs" and ix: "ix \<in> set (instructionsOf c sig)" for sig ix e
  proof (cases "outcomeOf dec c md s 0 sig ix = NotMatched")
    case True
    then show ?thesis using outcomeOf_unmatched [OF True, of previous] by simp
  next
    case False
    then have "ix \<in> set (matchedInstructions dec c md s sig)"
      using ix by (simp add: matchedInstructions_def)
    then obtain i text' where
      x: "data ix = messageData (discriminator md) i (enc text' s0)"
        "length (enc text' s0) < 2 ^ 32"
      using h sg by blast
    have "slice (data ix) 16 (16 + le32At (data ix) 12) = enc text' s0"
      unfolding x(1) using d x(2) by (rule messageData_ciphertext)
    then have "dec (slice (data ix) 16 (16 + le32At (data ix) 12)) s = None"
      using w n by simp
    then show ?thesis
      using outcomeOf_Pushed_decrypts [of dec c md s previous sig ix e] by blast
  qed
  then have "fetchNewMessages dec c md s previous = Inr []"
    using l by (intro fetchNewMessages_none_pushed) auto
  then show ?thesis
    using r p by (simp add: onAccountChange_def)
qed

lemma listener_shows_latest:
  assumes "getSignaturesForAddress c (pda md) 1000 = Inr sigs"
    and "sig \<in> set sigs"
    and "instructionsOf c sig = before @ ix # after"
    and "\<forall>j\<in>set before. outcomeOf dec c md s previous sig j \<noteq> Faulted"
    and "outcomeOf dec c md s previous sig ix = Pushed e"
    and r: "readUInt32LE updatedData (messageCountOffset md) = Inr newCount"
    and p: "previous < newCount"
  shows "\<exists>latest. onAccountChange dec c md s previous updatedData
           = Inr (newCount, [NewReceived, LatestContent latest])"
proof -
  obtain out where o: "fetchNewMessages dec c md s previous = Inr out" "e \<in> set out"
    using pushed_entry_fetched [OF assms(1-5)] by blast
  then have "0 < length out" by auto
  then show ?thesis
    using o(1) r p by (simp add: onAccountChange_def)
qed

text \<open>The key reaches a command through its secret alone.\<close>

lemma key_update_secrets:
  assumes "key opts = None"
  shows "sendMessageCommand_sharedSecret (opts\<lparr>key := Some ''default-secret-key''\<rparr>)
           = sendMessageCommand_sharedSecret opts"
    and "readMessagesCommand_sharedSecret (opts\<lparr>key := Some ''default-secret-key''\<rparr>)
           = readMessagesCommand_sharedSecret opts"
    and "sendBroadcastCommand_sharedSecret (opts\<lparr>key := Some ''default-channel-key''\<rparr>)
           = sendBroadcastCommand_sharedSecret opts"
    and "readBroadcastsCommand_sharedSecret (opts\<lparr>key := Some ''default-channel-key''\<rparr>)
           = readBroadcastsCommand_sharedSecret opts"
  using assms
  by (simp_all add: sendMessageCommand_sharedSecret_def readMessagesCommand_sharedSecret_def
        sendBroadcastCommand_sharedSecret_def readBroadcastsCommand_sharedSecret_def
        orDefault_def)

lemma monitorPdaUpdates_result:
  assumes "snd (monitorPdaUpdates c opts) = Inr (md, s, n)"
  shows "s = orDefault (key opts) ''default-secret-key''"
    and "fst (monitorPdaUpdates c opts)
           = (if orDefault (key opts) [] = [] then [NoKeyWarning] else [])
             @ [DecryptionKeyLine (orDefault (key opts) [] \<noteq> [])]"
    and "length (discriminator md) = 8"
    and "snd (monitorPdaUpdates c (opts\<lparr>key := Some k\<rparr>))
           = Inr (md, orDefault (Some k) ''default-secret-key'', n)"
proof -
  let ?a = "orDefault (thread_opt opts) (orDefault (channel_opt opts) [])"
  let ?t = "if orDefault (thread_opt opts) [] \<noteq> [] then thread else channel"
  have a: "?a \<noteq> []"
    using assms by (auto simp: monitorPdaUpdates_def Let_def)
  obtain target where t: "publicKeyFromString (Some ?a) = Inr target"
    using assms a by (auto simp: monitorPdaUpdates_def Let_def split: sum.splits)
  have f: "fetchMessageCount c target ?t = Inr (md, n)"
    using assms a t by (auto simp: monitorPdaUpdates_def Let_def split: sum.splits)
  show "s = orDefault (key opts) ''default-secret-key''"
    using assms a t by (auto simp: monitorPdaUpdates_def Let_def split: sum.splits)
  show "fst (monitorPdaUpdates c opts)
           = (if orDefault (key opts) [] = [] then [NoKeyWarning] else [])
             @ [DecryptionKeyLine (orDefault (key opts) [] \<noteq> [])]"
    using a t f by (simp add: monitorPdaUpdates_def Let_def)
  show "length (discriminator md) = 8"
    using f by (rule fetchMessageCount_metadata(1))
  show "snd (monitorPdaUpdates c (opts\<lparr>key := Some k\<rparr>))
           = Inr (md, orDefault (Some k) ''default-secret-key'', n)"
    using a t f by (simp add: monitorPdaUpdates_def Let_def)
qed

lemma monitorPdaUpdates_key:
  assumes "key opts = None"
  shows "snd (monitorPdaUpdates c opts)
           = snd (monitorPdaUpdates c (opts\<lparr>key := Some ''default-secret-key''\<rparr>))"
  using assms
  by (simp add: monitorPdaUpdates_def Let_def orDefault_def split: sum.split)

text \<open>
  The channel of \<open>demoBroadcastHistory\<close>: its count is 2, \<^verbatim>\<open>send-broadcast\<close> with the message
  \<open>h\<close> submits the instruction that the history holds, and the notification
  \<open>demoChannelUpdate\<close> carries the count 3.
\<close>

lemma demoChannelAccount_count: "le32At demoChannelAccount 76 = 2"
  by (simp add: le32At_def demoChannelAccount_def nth_append)

lemma demoChannelAccount_fetch:
  "fetchMessageCount demoBroadcastHistory demoPda channel
     = Inr (channelMetadata demoPda demoChannelAccount, 2)"
proof -
  have "getAccountInfo demoBroadcastHistory demoPda = Inr (Some demoChannelAccount)"
    by (simp add: demoBroadcastHistory_def demoConnection_def)
  moreover have "80 \<le> length demoChannelAccount"
    by (simp add: demoChannelAccount_def)
  ultimately show ?thesis
    using fetchMessageCount_channel [of demoBroadcastHistory demoPda demoChannelAccount]
    by (simp add: demoChannelAccount_count)
qed

lemma demo_listen:
  "monitorPdaUpdates demoBroadcastHistory demoListenOptions
     = ([NoKeyWarning, DecryptionKeyLine False],
        Inr (channelMetadata demoPda demoChannelAccount, ''default-secret-key'', 2))"
  by (simp add: monitorPdaUpdates_def demoListenOptions_def orDefault_def demoPda_address
        demoChannelAccount_fetch)

lemma demo_listen_channel_key:
  "monitorPdaUpdates demoBroadcastHistory
       (demoListenOptions\<lparr>key := Some ''default-channel-key''\<rparr>)
     = ([DecryptionKeyLine True],
        Inr (channelMetadata demoPda demoChannelAccount, ''default-channel-key'', 2))"
  by (simp add: monitorPdaUpdates_def demoListenOptions_def orDefault_def demoPda_address
        demoChannelAccount_fetch)

lemma demo_send_broadcast:
  "sendBroadcastCommand demoChannelEncrypt (Inr demoWallet) demoSubmit demoBroadcastHistory
       (demoListenOptions\<lparr>key := Some ''default-channel-key''\<rparr>)
     = ([], Inr \<lparr> instructionProgramId = PROGRAM_ID,
                  instructionKeys = [(demoPda, False, True), (demoWallet, True, False)],
                  instructionData =
                    messageData DISCRIMINATORS_sendBroadcast 2 (demoBlock 104) \<rparr>)"
  by (simp add: sendBroadcastCommand_def demoListenOptions_def demoPda_address
        demoChannelAccount_fetch enc_h demoSubmit_def)

lemma demo_read_broadcasts:
  "readBroadcastsCommand demoChannelDecrypt demoBroadcastHistory
       (demoListenOptions\<lparr>key := Some ''default-channel-key''\<rparr>)
     = ([], Inr (channelMetadata demoPda demoChannelAccount, 2, [demoEntry 2 ''h'' ''b2'']))"
  by (simp add: readBroadcastsCommand_def demoListenOptions_def demoPda_address
        demoChannelAccount_fetch readBroadcastsCommand_sharedSecret_def orDefault_def
        demo_broadcast_fetch)

lemma demoChannelUpdate_count:
  "readUInt32LE demoChannelUpdate
     (messageCountOffset (channelMetadata demoPda demoChannelAccount)) = Inr 3"
  by (simp add: readUInt32LE_def demoChannelUpdate_def channelMetadata_def nth_append)

lemma demo_broadcast_listing:
  "getSignaturesForAddress demoBroadcastHistory
     (pda (channelMetadata demoPda demoChannelAccount)) 1000 = Inr [''b2'']"
  by (simp add: getSignaturesForAddress_def demoBroadcastHistory_def demoConnection_def)

lemma demo_broadcast_instructions:
  "instructionsOf demoBroadcastHistory ''b2''
     = [] @ demoInstruction (messageData DISCRIMINATORS_sendBroadcast 2 (demoBlock 104)) # []"
  by (simp add: instructionsOf_def demoBroadcastHistory_def demoConnection_def
        demoTransaction_def)

lemma demo_broadcast_scan_from_2:
  "scanInstruction demoChannelDecrypt (channelMetadata demoPda demoChannelAccount)
      ''default-channel-key'' 2
      \<lparr> staticAccountKeys = [demoWallet, demoPda, PROGRAM_ID], compiledInstructions = ixs \<rparr>
      \<lparr> transaction = t, blockTime = Some 1700000000 \<rparr> ''b2''
      (demoInstruction (messageData DISCRIMINATORS_sendBroadcast 2 (demoBlock 104)))
   = Pushed (demoEntry 2 ''h'' ''b2'')"
proof -
  let ?msg = "\<lparr> staticAccountKeys = [demoWallet, demoPda, PROGRAM_ID], compiledInstructions = ixs \<rparr>"
  let ?ix = "demoInstruction (messageData DISCRIMINATORS_sendBroadcast 2 (demoBlock 104))"
  let ?md = "channelMetadata demoPda demoChannelAccount"
  have p: "lookup (staticAccountKeys ?msg) (programIdIndex ?ix) = Some PROGRAM_ID"
    by (simp add: lookup_def demoInstruction_def)
  have d: "data ?ix = messageData (discriminator ?md) 2 (demoBlock 104)"
    by (simp add: demoInstruction_def channelMetadata_def)
  have l: "length (discriminator ?md) = 8"
    by (simp add: channelMetadata_def DISCRIMINATORS_sendBroadcast_def)
  have b: "(2::nat) < 2 ^ 32" "length (demoBlock 104) < 2 ^ 32"
    by (simp_all add: length_demoBlock)
  show ?thesis
    using scanInstruction_messageData
            [OF p d l b, of demoChannelDecrypt "''default-channel-key''" 2
               "\<lparr> transaction = t, blockTime = Some 1700000000 \<rparr>" "''b2''"]
    unfolding demoChannelDecrypt_h demo_senderKey
    by (simp add: demoEntry_def)
qed

lemma demo_broadcast_outcome:
  "outcomeOf demoChannelDecrypt demoBroadcastHistory
      (channelMetadata demoPda demoChannelAccount) ''default-channel-key'' 2 ''b2''
      (demoInstruction (messageData DISCRIMINATORS_sendBroadcast 2 (demoBlock 104)))
   = Pushed (demoEntry 2 ''h'' ''b2'')"
  by (simp add: outcomeOf_def demoBroadcastHistory_def demoConnection_def demoTransaction_def
        demo_broadcast_scan_from_2)

lemma demo_broadcast_fetch_from_2:
  "fetchNewMessages demoChannelDecrypt demoBroadcastHistory
     (channelMetadata demoPda demoChannelAccount) ''default-channel-key'' 2
   = Inr [demoEntry 2 ''h'' ''b2'']"
  by (simp add: fetchNewMessages_def getSignaturesForAddress_def scanReferences_def
        scanReference_def demoBroadcastHistory_def demoConnection_def demoTransaction_def
        demo_broadcast_scan_from_2)

lemma demo_broadcast_matched:
  "\<forall>sig\<in>set [''b2''].
     \<forall>ix\<in>set (matchedInstructions demoChannelDecrypt demoBroadcastHistory
                 (channelMetadata demoPda demoChannelAccount) s sig).
       \<exists>i text'.
         data ix = messageData (discriminator (channelMetadata demoPda demoChannelAccount)) i
                     (demoChannelEncrypt text' ''default-channel-key'')
         \<and> length (demoChannelEncrypt text' ''default-channel-key'') < 2 ^ 32"
proof (intro ballI)
  fix sig ix
  let ?md = "channelMetadata demoPda demoChannelAccount"
  assume "sig \<in> set [''b2'']"
    and "ix \<in> set (matchedInstructions demoChannelDecrypt demoBroadcastHistory ?md s sig)"
  then have "ix \<in> set (instructionsOf demoBroadcastHistory ''b2'')"
    by (simp add: matchedInstructions_def)
  then have "ix = demoInstruction (messageData DISCRIMINATORS_sendBroadcast 2 (demoBlock 104))"
    unfolding demo_broadcast_instructions by simp
  then have "data ix = messageData (discriminator ?md) 2
                         (demoChannelEncrypt ''h'' ''default-channel-key'')
      \<and> length (demoChannelEncrypt ''h'' ''default-channel-key'') < 2 ^ 32"
    by (simp add: enc_h demoInstruction_def channelMetadata_def length_demoBlock)
  then show "\<exists>i text'.
         data ix = messageData (discriminator ?md) i
                     (demoChannelEncrypt text' ''default-channel-key'')
         \<and> length (demoChannelEncrypt text' ''default-channel-key'') < 2 ^ 32"
    by blast
qed

lemma demoChannelDecrypt_other:
  "\<forall>text' s'. s' \<noteq> ''default-channel-key'' \<longrightarrow>
     demoChannelDecrypt (demoChannelEncrypt text' ''default-channel-key'') s' = None"
  by (simp add: demoChannelDecrypt_def)

text \<open>
  C9, as the code has it. When \<^verbatim>\<open>--key\<close> is absent:

  \<^item> \<^verbatim>\<open>send\<close> and \<^verbatim>\<open>read\<close> do exactly what they do with \<^verbatim>\<open>--key default-secret-key\<close>, and
    \<^verbatim>\<open>send-broadcast\<close> and \<^verbatim>\<open>read-broadcasts\<close> exactly what they do with
    \<^verbatim>\<open>--key default-channel-key\<close>: the same result or the same failure, and no line about
    the key. Leaving the key out adds no failure, and these four commands substitute the
    literal silently.

  \<^item> \<^verbatim>\<open>listen\<close> fails or starts exactly as with \<^verbatim>\<open>--key default-secret-key\<close>. When it
    starts, on a thread or on a channel alike, its secret is \<open>default-secret-key\<close>, and it
    is not silent: it has printed the warning "No encryption key (--key) provided" and
    the line "Decryption Key: Using default". With \<^verbatim>\<open>--key default-channel-key\<close> it starts
    from the same metadata and the same count.

  \<^item> The two literals differ, and this is what the listener on a channel meets. Take a
    cipher under which a ciphertext made with \<open>default-channel-key\<close> opens under no other
    secret, and a history whose matched instructions all carry such ciphertexts. At a
    notification with a higher count, the listener without a key prints "Could not find
    or decrypt new content". The listener with \<^verbatim>\<open>--key default-channel-key\<close> prints the
    content of an entry as soon as some instruction of the history is pushed by its scan
    and no instruction before it in the same transaction faults.
\<close>

theorem omitted_key:
  assumes "key opts = None"
  shows "sendMessageCommand encryptMessage loadWallet sendAndConfirmTransaction connection opts
           = sendMessageCommand encryptMessage loadWallet sendAndConfirmTransaction connection
               (opts\<lparr>key := Some ''default-secret-key''\<rparr>)
       \<and> readMessagesCommand decryptMessage connection opts
           = readMessagesCommand decryptMessage connection
               (opts\<lparr>key := Some ''default-secret-key''\<rparr>)
       \<and> sendBroadcastCommand encryptMessage loadWallet sendAndConfirmTransaction connection opts
           = sendBroadcastCommand encryptMessage loadWallet sendAndConfirmTransaction connection
               (opts\<lparr>key := Some ''default-channel-key''\<rparr>)
       \<and> readBroadcastsCommand decryptMessage connection opts
           = readBroadcastsCommand decryptMessage connection
               (opts\<lparr>key := Some ''default-channel-key''\<rparr>)
       \<and> snd (monitorPdaUpdates connection opts)
           = snd (monitorPdaUpdates connection (opts\<lparr>key := Some ''default-secret-key''\<rparr>))
       \<and> (\<forall>metadata sharedSecret initialCount.
             snd (monitorPdaUpdates connection opts) = Inr (metadata, sharedSecret, initialCount)
             \<longrightarrow> sharedSecret = ''default-secret-key''
               \<and> fst (monitorPdaUpdates connection opts) = [NoKeyWarning, DecryptionKeyLine False]
               \<and> snd (monitorPdaUpdates connection (opts\<lparr>key := Some ''default-channel-key''\<rparr>))
                   = Inr (metadata, ''default-channel-key'', initialCount)
               \<and> (\<forall>sigs previous updatedData newCount.
                     getSignaturesForAddress connection (pda metadata) 1000 = Inr sigs
                     \<and> (\<forall>sig\<in>set sigs.
                          \<forall>ix\<in>set (matchedInstructions decryptMessage connection metadata
                                       sharedSecret sig).
                            \<exists>i text'.
                              data ix = messageData (discriminator metadata) i
                                          (encryptMessage text' ''default-channel-key'')
                              \<and> length (encryptMessage text' ''default-channel-key'') < 2 ^ 32)
                     \<and> (\<forall>text' s'. s' \<noteq> ''default-channel-key'' \<longrightarrow>
                           decryptMessage (encryptMessage text' ''default-channel-key'') s' = None)
                     \<and> readUInt32LE updatedData (messageCountOffset metadata) = Inr newCount
                     \<and> previous < newCount
                     \<longrightarrow> onAccountChange decryptMessage connection metadata sharedSecret previous
                           updatedData
                         = Inr (newCount, [NewReceived, CouldNotFind previous newCount])
                       \<and> (\<forall>sig before ix after e.
                             sig \<in> set sigs
                             \<and> instructionsOf connection sig = before @ ix # after
                             \<and> (\<forall>j\<in>set before.
                                   outcomeOf decryptMessage connection metadata
                                     ''default-channel-key'' previous sig j \<noteq> Faulted)
                             \<and> outcomeOf decryptMessage connection metadata
                                   ''default-channel-key'' previous sig ix = Pushed e
                             \<longrightarrow> (\<exists>latest.
                                   onAccountChange decryptMessage connection metadata
                                     ''default-channel-key'' previous updatedData
                                   = Inr (newCount, [NewReceived, LatestContent latest])))))"
proof -
  note s = key_update_secrets [OF assms]
  have c1: "sendMessageCommand encryptMessage loadWallet sendAndConfirmTransaction connection opts
           = sendMessageCommand encryptMessage loadWallet sendAndConfirmTransaction connection
               (opts\<lparr>key := Some ''default-secret-key''\<rparr>)"
    by (simp add: sendMessageCommand_def s split: sum.split option.split prod.split)
  have c2: "readMessagesCommand decryptMessage connection opts
           = readMessagesCommand decryptMessage connection
               (opts\<lparr>key := Some ''default-secret-key''\<rparr>)"
    by (simp add: readMessagesCommand_def s split: sum.split option.split prod.split)
  have c3: "sendBroadcastCommand encryptMessage loadWallet sendAndConfirmTransaction connection opts
           = sendBroadcastCommand encryptMessage loadWallet sendAndConfirmTransaction connection
               (opts\<lparr>key := Some ''default-channel-key''\<rparr>)"
    by (simp add: sendBroadcastCommand_def s split: sum.split option.split prod.split)
  have c4: "readBroadcastsCommand decryptMessage connection opts
           = readBroadcastsCommand decryptMessage connection
               (opts\<lparr>key := Some ''default-channel-key''\<rparr>)"
    by (simp add: readBroadcastsCommand_def s split: sum.split option.split prod.split)
  note c5 = monitorPdaUpdates_key [OF assms, of connection]
  have c6: "sharedSecret = ''default-secret-key''
      \<and> fst (monitorPdaUpdates connection opts) = [NoKeyWarning, DecryptionKeyLine False]
      \<and> snd (monitorPdaUpdates connection (opts\<lparr>key := Some ''default-channel-key''\<rparr>))
          = Inr (metadata, ''default-channel-key'', initialCount)
      \<and> (\<forall>sigs previous updatedData newCount.
            getSignaturesForAddress connection (pda metadata) 1000 = Inr sigs
            \<and> (\<forall>sig\<in>set sigs.
                 \<forall>ix\<in>set (matchedInstructions decryptMessage connection metadata
                              sharedSecret sig).
                   \<exists>i text'.
                     data ix = messageData (discriminator metadata) i
                                 (encryptMessage text' ''default-channel-key'')
                     \<and> length (encryptMessage text' ''default-channel-key'') < 2 ^ 32)
            \<and> (\<forall>text' s'. s' \<noteq> ''default-channel-key'' \<longrightarrow>
                  decryptMessage (encryptMessage text' ''default-channel-key'') s' = None)
            \<and> readUInt32LE updatedData (messageCountOffset metadata) = Inr newCount
            \<and> previous < newCount
            \<longrightarrow> onAccountChange decryptMessage connection metadata sharedSecret previous
                  updatedData
                = Inr (newCount, [NewReceived, CouldNotFind previous newCount])
              \<and> (\<forall>sig before ix after e.
                    sig \<in> set sigs
                    \<and> instructionsOf connection sig = before @ ix # after
                    \<and> (\<forall>j\<in>set before.
                          outcomeOf decryptMessage connection metadata
                            ''default-channel-key'' previous sig j \<noteq> Faulted)
                    \<and> outcomeOf decryptMessage connection metadata
                          ''default-channel-key'' previous sig ix = Pushed e
                    \<longrightarrow> (\<exists>latest.
                          onAccountChange decryptMessage connection metadata
                            ''default-channel-key'' previous updatedData
                          = Inr (newCount, [NewReceived, LatestContent latest]))))"
    if m: "snd (monitorPdaUpdates connection opts) = Inr (metadata, sharedSecret, initialCount)"
    for metadata sharedSecret initialCount
  proof -
    note r = monitorPdaUpdates_result [OF m]
    have s1: "sharedSecret = ''default-secret-key''"
      using r(1) assms by (simp add: orDefault_def)
    have s2: "fst (monitorPdaUpdates connection opts) = [NoKeyWarning, DecryptionKeyLine False]"
      using r(2) assms by (simp add: orDefault_def)
    have s3: "snd (monitorPdaUpdates connection (opts\<lparr>key := Some ''default-channel-key''\<rparr>))
                = Inr (metadata, ''default-channel-key'', initialCount)"
      using r(4) [of "''default-channel-key''"] by (simp add: orDefault_def)
    have ne: "sharedSecret \<noteq> ''default-channel-key''"
      unfolding s1 by simp
    have s4: "onAccountChange decryptMessage connection metadata sharedSecret previous
                  updatedData
                = Inr (newCount, [NewReceived, CouldNotFind previous newCount])
              \<and> (\<forall>sig before ix after e.
                    sig \<in> set sigs
                    \<and> instructionsOf connection sig = before @ ix # after
                    \<and> (\<forall>j\<in>set before.
                          outcomeOf decryptMessage connection metadata
                            ''default-channel-key'' previous sig j \<noteq> Faulted)
                    \<and> outcomeOf decryptMessage connection metadata
                          ''default-channel-key'' previous sig ix = Pushed e
                    \<longrightarrow> (\<exists>latest.
                          onAccountChange decryptMessage connection metadata
                            ''default-channel-key'' previous updatedData
                          = Inr (newCount, [NewReceived, LatestContent latest])))"
      if l: "getSignaturesForAddress connection (pda metadata) 1000 = Inr sigs"
        and h: "\<forall>sig\<in>set sigs.
                 \<forall>ix\<in>set (matchedInstructions decryptMessage connection metadata
                              sharedSecret sig).
                   \<exists>i text'.
                     data ix = messageData (discriminator metadata) i
                                 (encryptMessage text' ''default-channel-key'')
                     \<and> length (encryptMessage text' ''default-channel-key'') < 2 ^ 32"
        and w: "\<forall>text' s'. s' \<noteq> ''default-channel-key'' \<longrightarrow>
                  decryptMessage (encryptMessage text' ''default-channel-key'') s' = None"
        and rd: "readUInt32LE updatedData (messageCountOffset metadata) = Inr newCount"
        and p: "previous < newCount"
      for sigs previous updatedData newCount
    proof (intro conjI allI impI)
      show "onAccountChange decryptMessage connection metadata sharedSecret previous
                  updatedData
                = Inr (newCount, [NewReceived, CouldNotFind previous newCount])"
        using l r(3) h w ne rd p by (rule listener_finds_nothing)
    next
      fix sig before ix after e
      assume x: "sig \<in> set sigs
                    \<and> instructionsOf connection sig = before @ ix # after
                    \<and> (\<forall>j\<in>set before.
                          outcomeOf decryptMessage connection metadata
                            ''default-channel-key'' previous sig j \<noteq> Faulted)
                    \<and> outcomeOf decryptMessage connection metadata
                          ''default-channel-key'' previous sig ix = Pushed e"
      show "\<exists>latest.
                          onAccountChange decryptMessage connection metadata
                            ''default-channel-key'' previous updatedData
                          = Inr (newCount, [NewReceived, LatestContent latest])"
        using l x rd p
        by (intro listener_shows_latest [of connection metadata sigs sig before ix after
                                            decryptMessage "''default-channel-key''" previous e])
           simp_all
    qed
    have s5: "\<forall>sigs previous updatedData newCount.
            getSignaturesForAddress connection (pda metadata) 1000 = Inr sigs
            \<and> (\<forall>sig\<in>set sigs.
                 \<forall>ix\<in>set (matchedInstructions decryptMessage connection metadata
                              sharedSecret sig).
                   \<exists>i text'.
                     data ix = messageData (discriminator metadata) i
                                 (encryptMessage text' ''default-channel-key'')
                     \<and> length (encryptMessage text' ''default-channel-key'') < 2 ^ 32)
            \<and> (\<forall>text' s'. s' \<noteq> ''default-channel-key'' \<longrightarrow>
                  decryptMessage (encryptMessage text' ''default-channel-key'') s' = None)
            \<and> readUInt32LE updatedData (messageCountOffset metadata) = Inr newCount
            \<and> previous < newCount
            \<longrightarrow> onAccountChange decryptMessage connection metadata sharedSecret previous
                  updatedData
                = Inr (newCount, [NewReceived, CouldNotFind previous newCount])
              \<and> (\<forall>sig before ix after e.
                    sig \<in> set sigs
                    \<and> instructionsOf connection sig = before @ ix # after
                    \<and> (\<forall>j\<in>set before.
                          outcomeOf decryptMessage connection metadata
                            ''default-channel-key'' previous sig j \<noteq> Faulted)
                    \<and> outcomeOf decryptMessage connection metadata
                          ''default-channel-key'' previous sig ix = Pushed e
                    \<longrightarrow> (\<exists>latest.
                          onAccountChange decryptMessage connection metadata
                            ''default-channel-key'' previous updatedData
                          = Inr (newCount, [NewReceived, LatestContent latest])))"
      by (rule allI impI)+ (elim conjE, rule s4, assumption+)
    show ?thesis
      using s1 s2 s3 s5 by (intro conjI)
  qed
  show ?thesis
    by (intro conjI c1 c2 c3 c4 c5) ((rule allI impI)+, rule c6, assumption)
qed

theorem omitted_key_witness:
  "key demoListenOptions = None
   \<and> sendBroadcastCommand demoChannelEncrypt (Inr demoWallet) demoSubmit demoBroadcastHistory
         demoListenOptions
       = ([], Inr \<lparr> instructionProgramId = PROGRAM_ID,
                    instructionKeys = [(demoPda, False, True), (demoWallet, True, False)],
                    instructionData =
                      messageData DISCRIMINATORS_sendBroadcast 2 (demoBlock 104) \<rparr>)
   \<and> readBroadcastsCommand demoChannelDecrypt demoBroadcastHistory demoListenOptions
       = ([], Inr (channelMetadata demoPda demoChannelAccount, 2, [demoEntry 2 ''h'' ''b2'']))
   \<and> monitorPdaUpdates demoBroadcastHistory demoListenOptions
       = ([NoKeyWarning, DecryptionKeyLine False],
          Inr (channelMetadata demoPda demoChannelAccount, ''default-secret-key'', 2))
   \<and> onAccountChange demoChannelDecrypt demoBroadcastHistory
         (channelMetadata demoPda demoChannelAccount) ''default-secret-key'' 2
         demoChannelUpdate
       = Inr (3, [NewReceived, CouldNotFind 2 3])
   \<and> snd (monitorPdaUpdates demoBroadcastHistory
             (demoListenOptions\<lparr>key := Some ''default-channel-key''\<rparr>))
       = Inr (channelMetadata demoPda demoChannelAccount, ''default-channel-key'', 2)
   \<and> onAccountChange demoChannelDecrypt demoBroadcastHistory
         (channelMetadata demoPda demoChannelAccount) ''default-channel-key'' 2
         demoChannelUpdate
       = Inr (3, [NewReceived, LatestContent (demoEntry 2 ''h'' ''b2'')])"
proof -
  let ?md = "channelMetadata demoPda demoChannelAccount"
  have k: "key demoListenOptions = None"
    by (simp add: demoListenOptions_def)
  note t = omitted_key [where opts = demoListenOptions and encryptMessage = demoChannelEncrypt
             and loadWallet = "Inr demoWallet" and sendAndConfirmTransaction = demoSubmit
             and connection = demoBroadcastHistory and decryptMessage = demoChannelDecrypt,
             OF k]
  have c3: "sendBroadcastCommand demoChannelEncrypt (Inr demoWallet) demoSubmit
              demoBroadcastHistory demoListenOptions
            = ([], Inr \<lparr> instructionProgramId = PROGRAM_ID,
                    instructionKeys = [(demoPda, False, True), (demoWallet, True, False)],
                    instructionData =
                      messageData DISCRIMINATORS_sendBroadcast 2 (demoBlock 104) \<rparr>)"
    using t [THEN conjunct2, THEN conjunct2, THEN conjunct1]
    unfolding demo_send_broadcast .
  have c4: "readBroadcastsCommand demoChannelDecrypt demoBroadcastHistory demoListenOptions
       = ([], Inr (?md, 2, [demoEntry 2 ''h'' ''b2'']))"
    using t [THEN conjunct2, THEN conjunct2, THEN conjunct2, THEN conjunct1]
    unfolding demo_read_broadcasts .
  have m: "snd (monitorPdaUpdates demoBroadcastHistory demoListenOptions)
             = Inr (?md, ''default-secret-key'', 2)"
    by (simp add: demo_listen)
  note a = t [THEN conjunct2, THEN conjunct2, THEN conjunct2, THEN conjunct2, THEN conjunct2,
              THEN spec, THEN spec, THEN spec, THEN mp, OF m]
  note f = a [THEN conjunct2, THEN conjunct1]
  note g = a [THEN conjunct2, THEN conjunct2, THEN conjunct1]
  note b = a [THEN conjunct2, THEN conjunct2, THEN conjunct2,
              THEN spec, THEN spec, THEN spec, THEN spec, THEN mp]
  have h: "2 < (3::nat)"
    by simp
  note c = b [OF conjI [OF demo_broadcast_listing conjI [OF demo_broadcast_matched
                conjI [OF demoChannelDecrypt_other conjI [OF demoChannelUpdate_count h]]]]]
  note n = c [THEN conjunct1]
  have x: "''b2'' \<in> set [''b2'']"
    by simp
  have y: "\<forall>j\<in>set []. outcomeOf demoChannelDecrypt demoBroadcastHistory ?md
              ''default-channel-key'' 2 ''b2'' j \<noteq> Faulted"
    by simp
  note e = c [THEN conjunct2, THEN spec, THEN spec, THEN spec, THEN spec, THEN spec, THEN mp,
              OF conjI [OF x conjI [OF demo_broadcast_instructions
                conjI [OF y demo_broadcast_outcome]]]]
  have l: "onAccountChange demoChannelDecrypt demoBroadcastHistory ?md ''default-channel-key''
             2 demoChannelUpdate
           = Inr (3, [NewReceived, LatestContent (demoEntry 2 ''h'' ''b2'')])"
    using e
    by (simp add: onAccountChange_def demoChannelUpdate_count demo_broadcast_fetch_from_2)
  have w: "monitorPdaUpdates demoBroadcastHistory demoListenOptions
       = ([NoKeyWarning, DecryptionKeyLine False], Inr (?md, ''default-secret-key'', 2))"
    using f m by (simp add: prod_eq_iff)
  show ?thesis
    using k c3 c4 w n g l by (intro conjI)
qed

text \<open>
  The claim C9 as stated fails for \<^verbatim>\<open>listen\<close>: without a key it does not substitute its
  literal silently. On the channel of \<open>demoBroadcastHistory\<close> it prints the warning and
  the line "Decryption Key: Using default" before it takes \<open>default-secret-key\<close>.
\<close>

theorem listen_warns_counterexample:
  "key demoListenOptions = None
   \<and> monitorPdaUpdates demoBroadcastHistory demoListenOptions
       = ([NoKeyWarning, DecryptionKeyLine False],
          Inr (channelMetadata demoPda demoChannelAccount, ''default-secret-key'', 2))"
proof -
  have "key demoListenOptions = None"
    by (simp add: demoListenOptions_def)
  then show ?thesis
    using demo_listen by (intro conjI)
qed

end
